theory Spec2Isabelle
  imports Main "HOL-Library.AList"
begin

section \<open>Python values and exceptions shared by the models\<close>

text \<open>
  The exceptions the modelled functions raise or catch.  Every one of them is a subclass
  of Python's \<^verbatim>\<open>Exception\<close>, so a bare \<^verbatim>\<open>except Exception\<close> catches each.
  \<open>OtherError\<close> stands for any exception raised by a collaborator that is not part of
  the modelled sources (the REST client, the model registry, a user callback).
  Exceptions outside \<^verbatim>\<open>Exception\<close> (\<^verbatim>\<open>KeyboardInterrupt\<close>, \<^verbatim>\<open>SystemExit\<close>) are
  not part of the models, except where a model says so.
\<close>

datatype exn =
    ValueError | TypeError | AttributeError | IndexError | KeyError | FileNotFoundError
  | OtherError

section \<open>Callback registry of WeightsFileHandler (binding/frameworks/__init__.py)\<close>

text \<open>
  \<^verbatim>\<open>_model_pre_callbacks\<close> and \<^verbatim>\<open>_model_post_callbacks\<close> are dictionaries from an
  integer handle to a callback.  Python dictionaries keep insertion order and the code
  reads that order (\<^verbatim>\<open>[k for k, v in target.items() if v == func][0]\<close>), so a registry
  is an association list; a new key is appended, as \<^verbatim>\<open>target[h] = func\<close> does for a key
  that is not present.
\<close>

type_synonym 'f registry = "(int \<times> 'f) list"

definition registry_values :: "'f registry \<Rightarrow> 'f list" where
  "registry_values target = map snd target"

definition registry_has_key :: "'f registry \<Rightarrow> int \<Rightarrow> bool" where
  "registry_has_key target h = (h \<in> set (map fst target))"

text \<open>
  The loop \<^verbatim>\<open>while True: h = randint(0, 1 << 31); if h not in target: break\<close>.
  The random generator is the sequence of its draws \<open>draws\<close> and the position \<open>i\<close> of
  the next draw; the loop returns the handle and the position after it.  The loop
  does not return when every later draw is a key of the registry: the value is
  \<open>None\<close> then.
\<close>

partial_function (option) draw_handle :: "(nat \<Rightarrow> int) \<Rightarrow> nat \<Rightarrow> 'f registry \<Rightarrow> (int \<times> nat) option" where
  "draw_handle draws i target =
     (let h = draws i in
      if \<not> registry_has_key target h then Some (h, Suc i)
      else draw_handle draws (Suc i) target)"

text \<open>
  \<^verbatim>\<open>_add_callback(func, target)\<close>: the result is the returned handle (or the exception
  of \<^verbatim>\<open>[...][0]\<close> on an empty list), the registry after the call and the position of
  the random generator after the call.
\<close>

definition add_callback ::
  "(nat \<Rightarrow> int) \<Rightarrow> nat \<Rightarrow> 'f \<Rightarrow> 'f registry \<Rightarrow> ((exn + int) \<times> 'f registry \<times> nat) option" where
  "add_callback draws i func target =
     (if func \<in> set (registry_values target) then
        (case map fst (filter (\<lambda>(k, v). v = func) target) of
           k # _ \<Rightarrow> Some (Inr k, target, i)
         | [] \<Rightarrow> Some (Inl IndexError, target, i))
      else
        (case draw_handle draws i target of
           None \<Rightarrow> None
         | Some (h, i') \<Rightarrow> Some (Inr h, target @ [(h, func)], i')))"

text \<open>
  \<^verbatim>\<open>_remove_callback(handle, target)\<close>: \<^verbatim>\<open>target.pop(handle, None)\<close> deletes the
  entry of the key.
\<close>

definition remove_callback :: "int \<Rightarrow> 'f registry \<Rightarrow> bool \<times> 'f registry" where
  "remove_callback handle target =
     (if registry_has_key target handle
      then (True, filter (\<lambda>(k, v). k \<noteq> handle) target)
      else (False, target))"

text \<open>The class attributes of \<^verbatim>\<open>WeightsFileHandler\<close> that hold the two registries.\<close>

record 'f handler_state =
  model_pre_callbacks :: "'f registry"
  model_post_callbacks :: "'f registry"

definition add_pre_callback ::
  "(nat \<Rightarrow> int) \<Rightarrow> nat \<Rightarrow> 'f \<Rightarrow> 'f handler_state \<Rightarrow> ((exn + int) \<times> 'f handler_state \<times> nat) option" where
  "add_pre_callback draws i callback_function cls =
     (case add_callback draws i callback_function (model_pre_callbacks cls) of
        None \<Rightarrow> None
      | Some (r, target', i') \<Rightarrow> Some (r, cls\<lparr>model_pre_callbacks := target'\<rparr>, i'))"

definition add_post_callback ::
  "(nat \<Rightarrow> int) \<Rightarrow> nat \<Rightarrow> 'f \<Rightarrow> 'f handler_state \<Rightarrow> ((exn + int) \<times> 'f handler_state \<times> nat) option" where
  "add_post_callback draws i callback_function cls =
     (case add_callback draws i callback_function (model_post_callbacks cls) of
        None \<Rightarrow> None
      | Some (r, target', i') \<Rightarrow> Some (r, cls\<lparr>model_post_callbacks := target'\<rparr>, i'))"

definition remove_pre_callback :: "int \<Rightarrow> 'f handler_state \<Rightarrow> bool \<times> 'f handler_state" where
  "remove_pre_callback handle cls =
     (case remove_callback handle (model_pre_callbacks cls) of
        (r, target') \<Rightarrow> (r, cls\<lparr>model_pre_callbacks := target'\<rparr>))"

definition remove_post_callback :: "int \<Rightarrow> 'f handler_state \<Rightarrow> bool \<times> 'f handler_state" where
  "remove_post_callback handle cls =
     (case remove_callback handle (model_post_callbacks cls) of
        (r, target') \<Rightarrow> (r, cls\<lparr>model_post_callbacks := target'\<rparr>))"

section \<open>Archive unpacking (utilities/pigar/unpack.py)\<close>

definition backslash :: char where
  "backslash = CHR 0x5C"

text \<open>
  The constants of Python's standard \<^verbatim>\<open>string\<close> module that hold letters and digits.
  The module has no attribute \<^verbatim>\<open>ascii_letter\<close>; reading an attribute that a module
  does not have raises \<^verbatim>\<open>AttributeError\<close>.
\<close>

definition ascii_lowercase :: string where
  "ascii_lowercase = ''abcdefghijklmnopqrstuvwxyz''"

definition ascii_uppercase :: string where
  "ascii_uppercase = ''ABCDEFGHIJKLMNOPQRSTUVWXYZ''"

definition string_module :: "(string \<times> string) list" where
  "string_module =
     [(''ascii_letters'', ascii_lowercase @ ascii_uppercase),
      (''ascii_lowercase'', ascii_lowercase),
      (''ascii_uppercase'', ascii_uppercase),
      (''digits'', ''0123456789''),
      (''hexdigits'', ''0123456789abcdefABCDEF''),
      (''octdigits'', ''01234567'')]"

text \<open>
  The exceptions of this module carry what the source puts in them: the file name
  of \<^verbatim>\<open>ValueError("unreadable: ...")\<close>, the list of names of
  \<^verbatim>\<open>ValueError("unsafe to unpack: ...")\<close>, and the attribute name of the
  \<^verbatim>\<open>AttributeError\<close> of a module attribute that does not exist.
\<close>

datatype unpack_exn =
    ValueError_unreadable string
  | ValueError_unsafe "string list"
  | AttributeError_string string

definition string_getattr :: "string \<Rightarrow> unpack_exn + string" where
  "string_getattr attr =
     (case map_of string_module attr of
        None \<Rightarrow> Inl (AttributeError_string attr)
      | Some v \<Rightarrow> Inr v)"

text \<open>\<^verbatim>\<open>s.startswith(prefixes)\<close> and \<^verbatim>\<open>s.endswith(suffixes)\<close> with a tuple argument.\<close>

definition startswith :: "string \<Rightarrow> string list \<Rightarrow> bool" where
  "startswith s prefixes = list_ex (\<lambda>p. take (length p) s = p) prefixes"

definition endswith :: "string \<Rightarrow> string list \<Rightarrow> bool" where
  "endswith s suffixes =
     list_ex (\<lambda>p. length p \<le> length s \<and> drop (length s - length p) s = p) suffixes"

text \<open>
  \<^verbatim>\<open>re.search(r"[.][.][/\\]", filename)\<close>: two dots followed by a slash or a
  backslash, anywhere in the name.
\<close>

fun re_search_dotdot :: "string \<Rightarrow> bool" where
  "re_search_dotdot (a # b # c # rest) =
     ((a = CHR ''.'' \<and> b = CHR ''.'' \<and> (c = CHR ''/'' \<or> c = backslash))
      \<or> re_search_dotdot (b # c # rest))"
| "re_search_dotdot _ = False"

text \<open>
  \<^verbatim>\<open>Archive.is_safe\<close>.  Python evaluates \<^verbatim>\<open>not (A or B or C)\<close> from the left: the
  drive test \<open>B\<close> is reached when the name does not start with a slash or backslash,
  and its last conjunct \<^verbatim>\<open>filename[0] in string.ascii_letter\<close> is evaluated when the
  name has more than one character and the second one is a colon.
\<close>

definition is_safe :: "string \<Rightarrow> unpack_exn + bool" where
  "is_safe filename =
     (if startswith filename [''/'', [backslash]] then Inr False
      else if length filename > 1 \<and> filename ! 1 = CHR '':'' then
        (case string_getattr ''ascii_letter'' of
           Inl e \<Rightarrow> Inl e
         | Inr letters \<Rightarrow>
             if filename ! 0 \<in> set letters then Inr False
             else Inr (\<not> re_search_dotdot filename))
      else Inr (\<not> re_search_dotdot filename))"

text \<open>
  An archive is its file name and the member names its opened file lists
  (\<^verbatim>\<open>namelist()\<close> of a zip file, \<^verbatim>\<open>getnames()\<close> of a tarball).  Extraction is the
  library call \<^verbatim>\<open>extractall(to_path)\<close>; its effect is recorded as the names written
  and the target path.
\<close>

record archive =
  a_filename :: string
  a_members :: "string list"

datatype archive_format = Tarball | Zip

record extraction =
  x_names :: "string list"
  x_to_path :: string

definition prepare :: "archive \<Rightarrow> unpack_exn + archive_format" where
  "prepare a =
     (if endswith (a_filename a) [''.tar.gz'', ''.tar.bz2'', ''.tar.xz''] then Inr Tarball
      else if endswith (a_filename a) [''.zip'', ''.egg'', ''.whl''] then Inr Zip
      else Inl (ValueError_unreadable (a_filename a)))"

text \<open>
  The loop of \<^verbatim>\<open>_safe_extractall\<close> that collects the names \<^verbatim>\<open>is_safe\<close> rejects; an
  exception of \<^verbatim>\<open>is_safe\<close> leaves the loop at the first name that raises it.
\<close>

fun collect_unsafe :: "string list \<Rightarrow> string list \<Rightarrow> unpack_exn + string list" where
  "collect_unsafe [] unsafe = Inr unsafe"
| "collect_unsafe (name # names) unsafe =
     (case is_safe name of
        Inl e \<Rightarrow> Inl e
      | Inr ok \<Rightarrow> collect_unsafe names (if \<not> ok then unsafe @ [name] else unsafe))"

definition safe_extractall :: "archive \<Rightarrow> string \<Rightarrow> unpack_exn + extraction" where
  "safe_extractall a to_path =
     (case collect_unsafe (a_members a) [] of
        Inl e \<Rightarrow> Inl e
      | Inr unsafe \<Rightarrow>
          if unsafe \<noteq> [] then Inl (ValueError_unsafe unsafe)
          else Inr \<lparr>x_names = a_members a, x_to_path = to_path\<rparr>)"

definition unpack :: "archive \<Rightarrow> string \<Rightarrow> unpack_exn + extraction" where
  "unpack a to_path =
     (case prepare a of
        Inl e \<Rightarrow> Inl e
      | Inr _ \<Rightarrow> safe_extractall a to_path)"

text \<open>
  The unsafe names in the words of the claim about unpacking: a name that starts
  with a slash or a backslash, that names a Windows drive (its second character is a
  colon and its first an ASCII letter), or that contains two dots followed by a slash
  or a backslash.
\<close>

definition unsafe_name_spec :: "string \<Rightarrow> bool" where
  "unsafe_name_spec filename =
     (startswith filename [''/'', [backslash]]
      \<or> (length filename > 1 \<and> filename ! 1 = CHR '':''
          \<and> filename ! 0 \<in> set (ascii_lowercase @ ascii_uppercase))
      \<or> re_search_dotdot filename)"

text \<open>The names on which \<^verbatim>\<open>is_safe\<close> reaches the drive test.\<close>

definition reaches_drive_test :: "string \<Rightarrow> bool" where
  "reaches_drive_test filename =
     (\<not> startswith filename [''/'', [backslash]] \<and> length filename > 1 \<and> filename ! 1 = CHR '':'')"

section \<open>Raising an exception in another thread (utilities/lowlevel/threads.py)\<close>

text \<open>
  \<^verbatim>\<open>threading._active\<close> is a dictionary from thread ident to thread object; the loop
  reads its items in order and compares objects by identity, so it is a list of pairs
  of an ident and the identity of a thread object.

  An exception object is an exception class or an instance of one; an instance has
  a truth value (true unless its class says otherwise), a class is true.  The
  argument \<^verbatim>\<open>exception\<close> is \<^verbatim>\<open>None\<close> or such an object; \<^verbatim>\<open>SystemExit()\<close> in the source
  is an instance.
\<close>

datatype exception_class = SystemExit | SystemError | Other_exception nat

datatype exc_object = Class exception_class | Instance exception_class bool

definition exc_truthy :: "exc_object option \<Rightarrow> bool" where
  "exc_truthy x = (case x of None \<Rightarrow> False | Some (Class c) \<Rightarrow> True | Some (Instance c b) \<Rightarrow> b)"

text \<open>
  \<^verbatim>\<open>PyThreadState_SetAsyncExc\<close> is the C function of the interpreter, called through
  ctypes: it takes an ident and an exception object or \<^verbatim>\<open>NULL\<close> and returns a C
  \<^verbatim>\<open>int\<close>, the number of thread states it modified; the call through ctypes may
  raise.  The conversion of the ident with \<^verbatim>\<open>ctypes.c_ulong\<close> or \<^verbatim>\<open>ctypes.c_long\<close>
  keeps the ident an ident of the list has.

  What the target thread gets is decided by CPython when it delivers the pending
  object: it raises the object as an exception class, and for an object that is not
  a class deriving from \<^verbatim>\<open>BaseException\<close> (an instance is not) it raises
  \<^verbatim>\<open>SystemError\<close> instead.
\<close>

datatype async_arg = Exc exc_object | NULL

definition raised_in_target :: "exc_object \<Rightarrow> exception_class" where
  "raised_in_target x = (case x of Class c \<Rightarrow> c | Instance c b \<Rightarrow> SystemError)"

record thread_env =
  active :: "(nat \<times> nat) list"
  PyThreadState_SetAsyncExc :: "nat \<Rightarrow> async_arg \<Rightarrow> exn + int"

text \<open>The search loop: \<open>(found, target_tid)\<close> after it.\<close>

fun find_thread :: "(nat \<times> nat) list \<Rightarrow> nat \<Rightarrow> bool \<times> nat" where
  "find_thread [] thread_obj = (False, 0)"
| "find_thread ((tid, tobj) # rest) thread_obj =
     (if tobj = thread_obj then (True, tid) else find_thread rest thread_obj)"

text \<open>
  \<^verbatim>\<open>_lowlevel_async_raise\<close>: the returned flag and the calls of the C function it made,
  in order.  \<^verbatim>\<open>if not exception: exception = SystemExit()\<close> replaces \<^verbatim>\<open>None\<close> and any
  exception object that is false.
\<close>

definition lowlevel_async_raise ::
  "thread_env \<Rightarrow> nat \<Rightarrow> exc_object option \<Rightarrow> bool \<times> (nat \<times> async_arg) list" where
  "lowlevel_async_raise env thread_obj exception =
     (case find_thread (active env) thread_obj of
        (found, target_tid) \<Rightarrow>
          if \<not> found then (False, [])
          else
            let exception' = (if \<not> exc_truthy exception then Instance SystemExit True
                              else (case exception of None \<Rightarrow> Instance SystemExit True | Some e \<Rightarrow> e));
                ret = (case PyThreadState_SetAsyncExc env target_tid (Exc exception') of
                         Inl _ \<Rightarrow> 0
                       | Inr n \<Rightarrow> n)
            in if ret = 0 then (False, [(target_tid, Exc exception')])
               else if ret > 1 then
                 (False, [(target_tid, Exc exception'), (target_tid, NULL)])
               else (True, [(target_tid, Exc exception')]))"

text \<open>
  The loop \<^verbatim>\<open>while wait and thread_obj.is_alive(): time.sleep(0.1)\<close>: \<open>is_alive n\<close> is
  what the \<open>n\<close>-th poll answers; the loop returns the number of polls that answered
  yes, and does not return when the thread never ends.
\<close>

partial_function (option) wait_while_alive :: "bool \<Rightarrow> (nat \<Rightarrow> bool) \<Rightarrow> nat \<Rightarrow> nat option" where
  "wait_while_alive wait is_alive n =
     (if wait \<and> is_alive n then wait_while_alive wait is_alive (Suc n) else Some n)"

text \<open>\<^verbatim>\<open>kill_thread\<close> passes the instance \<^verbatim>\<open>SystemExit()\<close>.\<close>

definition kill_thread ::
  "thread_env \<Rightarrow> nat \<Rightarrow> bool \<Rightarrow> (nat \<Rightarrow> bool) \<Rightarrow> (bool \<times> (nat \<times> async_arg) list) option" where
  "kill_thread env thread_obj wait is_alive =
     (case lowlevel_async_raise env thread_obj (Some (Instance SystemExit True)) of
        (raised, calls) \<Rightarrow>
          if \<not> raised then Some (False, calls)
          else (case wait_while_alive wait is_alive 0 of
                  None \<Rightarrow> None
                | Some _ \<Rightarrow> Some (True, calls)))"

text \<open>
  Two active threads for a concrete run: the C function reports one modified state
  for ident 12 and none for any other ident.
\<close>

definition two_threads :: thread_env where
  "two_threads = \<lparr>active = [(11, 1), (12, 2)],
     PyThreadState_SetAsyncExc = (\<lambda>tid a. Inr (if tid = 12 then 1 else 0))\<rparr>"

section \<open>The recursion guard of patched calls (binding/frameworks/__init__.py)\<close>

text \<open>
  \<^verbatim>\<open>_recursion_guard\<close> is a module-level dictionary from thread ident to 1.  The
  program state is a record that holds it; whatever else the wrapped functions read
  and write is the extension of the record.  A Python callable is a function of the
  ident of the thread that runs it, its arguments and the state, to its outcome (the
  exception it raises or the value it returns) and the state it leaves.
\<close>

record guard_state =
  recursion_guard :: "nat \<rightharpoonup> nat"

type_synonym ('a, 'r, 'e, 's) callable =
  "nat \<Rightarrow> 'a \<Rightarrow> 's guard_state_scheme \<Rightarrow> ('e + 'r) \<times> 's guard_state_scheme"

text \<open>
  \<^verbatim>\<open>_patched_call(original_fn, patched_fn)\<close> returns \<^verbatim>\<open>_inner_patch\<close>.  The
  \<^verbatim>\<open>finally\<close> block pops the ident whether \<^verbatim>\<open>patched_fn\<close> returned or raised (a
  missing key is ignored); an exception is raised again after it.
\<close>

definition patched_call ::
  "('a, 'r, 'e, 's) callable \<Rightarrow> (('a, 'r, 'e, 's) callable \<Rightarrow> ('a, 'r, 'e, 's) callable)
     \<Rightarrow> ('a, 'r, 'e, 's) callable" where
  "patched_call original_fn patched_fn ident args w =
     (if ident \<in> dom (recursion_guard w) then original_fn ident args w
      else
        let w1 = w\<lparr>recursion_guard := (recursion_guard w)(ident \<mapsto> 1)\<rparr> in
        (case patched_fn original_fn ident args w1 of
           (ret, w2) \<Rightarrow> (ret, w2\<lparr>recursion_guard := (recursion_guard w2)(ident := None)\<rparr>)))"

text \<open>
  A callable leaves the guard entries of the threads it does not run on as they are.
\<close>

definition keeps_other_threads :: "('a, 'r, 'e, 's) callable \<Rightarrow> bool" where
  "keeps_other_threads f =
     (\<forall>ident args w t. t \<noteq> ident \<longrightarrow>
        recursion_guard (snd (f ident args w)) t = recursion_guard w t)"

section \<open>Hyper-parameters of a task (backend_interface/task/hyperparams.py)\<close>

text \<open>
  Truthiness of an optional string (\<^verbatim>\<open>None\<close> and the empty string are false) and
  Python's \<^verbatim>\<open>a or b\<close> on optional strings.
\<close>

definition truthy :: "string option \<Rightarrow> bool" where
  "truthy x = (case x of None \<Rightarrow> False | Some s \<Rightarrow> s \<noteq> [])"

definition py_or :: "string option \<Rightarrow> string option \<Rightarrow> string option" where
  "py_or a b = (if truthy a then a else b)"

text \<open>
  Modelled from the spec: \<^verbatim>\<open>Session.check_min_api_version\<close> is not part of the
  sources.  The claims read \<^verbatim>\<open>check_min_api_version("2.9")\<close> as "the server API
  version is not below 2.9": a version is a pair of major and minor number, compared
  major first.
\<close>

definition check_min_api_version :: "nat \<times> nat \<Rightarrow> nat \<times> nat \<Rightarrow> bool" where
  "check_min_api_version server min_api_version =
     (fst min_api_version < fst server
      \<or> (fst min_api_version = fst server \<and> snd min_api_version \<le> snd server))"

text \<open>
  Modelled from the docstring of \<^verbatim>\<open>edit_hyper_params\<close>:
  \<^verbatim>\<open>tasks.ReplaceHyperparamsEnum\<close> is not part of the sources; the replace strategies
  the docstring lists are its values.
\<close>

definition replace_has_value :: "string option \<Rightarrow> bool" where
  "replace_has_value replace = (replace \<in> set [Some ''none'', Some ''section'', Some ''all''])"

definition UNSAFE_NAMES_2_10 :: "string list" where
  "UNSAFE_NAMES_2_10 =
     [''ne'', ''gt'', ''gte'', ''lt'', ''lte'', ''in'', ''nin'', ''mod'', ''all'', ''size'',
      ''exists'', ''not'', ''elemMatch'', ''type'', ''within_distance'',
      ''within_spherical_distance'', ''within_box'', ''within_polygon'', ''near'',
      ''near_sphere'', ''max_distance'', ''min_distance'', ''geo_within'',
      ''geo_within_box'', ''geo_within_polygon'', ''geo_within_center'',
      ''geo_within_sphere'', ''geo_intersects'', ''contains'', ''icontains'',
      ''startswith'', ''istartswith'', ''endswith'', ''iendswith'', ''exact'', ''iexact'',
      ''match'']"

text \<open>
  \<^verbatim>\<open>tasks.ParamsItem\<close>: the API object of one hyper-parameter.  Its fields are optional
  strings.  A Python dictionary with string keys whose values are \<^verbatim>\<open>None\<close> or are
  turned into strings by \<^verbatim>\<open>str\<close> is an association list from key to optional string.
\<close>

record params_item =
  p_section :: "string option"
  p_name :: "string option"
  p_value :: "string option"
  p_type :: "string option"
  p_description :: "string option"

type_synonym str_dict = "(string \<times> string option) list"

definition dict_get :: "str_dict \<Rightarrow> string \<Rightarrow> string option" where
  "dict_get d k = (case map_of d k of None \<Rightarrow> None | Some v \<Rightarrow> v)"

definition empty_item :: params_item where
  "empty_item = \<lparr>p_section = None, p_name = None, p_value = None, p_type = None,
     p_description = None\<rparr>"

text \<open>\<^verbatim>\<open>tasks.ParamsItem(**{k: None if v is None else str(v) for k, v in d.items()})\<close>.\<close>

definition item_of_dict :: "str_dict \<Rightarrow> params_item" where
  "item_of_dict d = \<lparr>p_section = dict_get d ''section'', p_name = dict_get d ''name'',
     p_value = dict_get d ''value'', p_type = dict_get d ''type'',
     p_description = dict_get d ''description''\<rparr>"

text \<open>
  The values \<^verbatim>\<open>make_item\<close> tells apart, in the order of its tests: a
  \<^verbatim>\<open>tasks.ParamsItem\<close>; a dictionary; a tuple of two components whose second is a
  dictionary (given with the \<^verbatim>\<open>str\<close> of its first component, the dictionary, and the
  \<^verbatim>\<open>str\<close> of the dictionary); any other tuple (given by the \<^verbatim>\<open>str\<close> of its
  components); anything else (given by its \<^verbatim>\<open>str\<close>).
\<close>

datatype hp_value =
    VItem params_item
  | VDict str_dict
  | VPair string str_dict string
  | VTuple "string list"
  | VOther string

text \<open>The first part of \<^verbatim>\<open>make_item\<close>: the \<^verbatim>\<open>if\<close>/\<^verbatim>\<open>elif\<close> chain that builds \<^verbatim>\<open>a_item\<close>.
  A keyword given twice (\<^verbatim>\<open>name\<close> and a \<^verbatim>\<open>name\<close> key of the dictionary) is a
  \<^verbatim>\<open>TypeError\<close>; a tuple with fewer than two components an \<^verbatim>\<open>IndexError\<close>.\<close>

definition build_item :: "hp_value \<Rightarrow> exn + params_item" where
  "build_item v =
     (case v of
        VItem a_item \<Rightarrow> Inr a_item
      | VDict d \<Rightarrow> Inr (item_of_dict d)
      | VPair v0 d d_str \<Rightarrow>
          if ''value'' \<in> set (map fst d) then
            (if ''name'' \<in> set (map fst d) then Inl TypeError
             else Inr ((item_of_dict d)\<lparr>p_name := Some v0\<rparr>))
          else Inr (empty_item\<lparr>p_name := Some v0, p_value := Some d_str\<rparr>)
      | VTuple vs \<Rightarrow>
          (case vs of
             v0 # v1 # _ \<Rightarrow> Inr (empty_item\<lparr>p_name := Some v0, p_value := Some v1\<rparr>)
           | _ \<Rightarrow> Inl IndexError)
      | VOther s \<Rightarrow> Inr (empty_item\<lparr>p_value := Some s\<rparr>))"

text \<open>\<^verbatim>\<open>_escape_unsafe_values(*values)\<close>: the values it yields, in order.\<close>

definition escape_unsafe_values :: "string list \<Rightarrow> string list" where
  "escape_unsafe_values vs =
     map (\<lambda>v. if v \<notin> set UNSAFE_NAMES_2_10 then v else ''_'' @ v) vs"

text \<open>
  \<^verbatim>\<open>make_item(value, name=None)\<close>, a closure over \<^verbatim>\<open>escape_unsafe\<close>,
  \<^verbatim>\<open>force_section\<close> and \<^verbatim>\<open>default_section\<close>.  The two tests \<^verbatim>\<open>if not a_item.name\<close>
  and \<^verbatim>\<open>if not section\<close> are the two \<^verbatim>\<open>ValueError\<close> branches.
\<close>

definition make_item ::
  "bool \<Rightarrow> string option \<Rightarrow> string option \<Rightarrow> hp_value \<Rightarrow> string option \<Rightarrow> exn + params_item" where
  "make_item escape_unsafe force_section default_section v name =
     (case build_item v of
        Inl e \<Rightarrow> Inl e
      | Inr a_item0 \<Rightarrow>
          let a_item = (if truthy name then a_item0\<lparr>p_name := name\<rparr> else a_item0) in
          (case p_name a_item of
             None \<Rightarrow> Inl ValueError
           | Some n \<Rightarrow>
               if n = [] then Inl ValueError
               else
                 (case py_or (py_or force_section (p_section a_item)) default_section of
                    None \<Rightarrow> Inl ValueError
                  | Some sec \<Rightarrow>
                      if sec = [] then Inl ValueError
                      else if escape_unsafe then
                        (case escape_unsafe_values [sec, n] of
                           [sec', n'] \<Rightarrow> Inr (a_item\<lparr>p_section := Some sec', p_name := Some n'\<rparr>)
                         | _ \<Rightarrow> Inl ValueError)
                      else Inr (a_item\<lparr>p_section := Some sec\<rparr>))))"

text \<open>
  The argument \<^verbatim>\<open>iterables\<close> is a dictionary from name to value or an iterable of
  values.  \<^verbatim>\<open>props\<close> is a dictionary from name to item; \<^verbatim>\<open>props.update\<close> replaces
  the item of a name that is present and appends a new name.
\<close>

datatype hp_input = DictInput "(string \<times> hp_value) list" | IterInput "hp_value list"

type_synonym props = "(string option \<times> params_item) list"

fun props_of_dict ::
  "bool \<Rightarrow> string option \<Rightarrow> string option \<Rightarrow> (string \<times> hp_value) list \<Rightarrow> props \<Rightarrow> exn + props" where
  "props_of_dict esc force dflt [] props = Inr props"
| "props_of_dict esc force dflt ((name, v) # rest) props =
     (case make_item esc force dflt v (Some name) of
        Inl e \<Rightarrow> Inl e
      | Inr item \<Rightarrow> props_of_dict esc force dflt rest (AList.update (Some name) item props))"

fun props_of_iter ::
  "bool \<Rightarrow> string option \<Rightarrow> string option \<Rightarrow> hp_value list \<Rightarrow> props \<Rightarrow> exn + props" where
  "props_of_iter esc force dflt [] props = Inr props"
| "props_of_iter esc force dflt (i # rest) props =
     (case make_item esc force dflt i None of
        Inl e \<Rightarrow> Inl e
      | Inr item \<Rightarrow> props_of_iter esc force dflt rest (AList.update (p_name item) item props))"


definition make_props ::
  "bool \<Rightarrow> string option \<Rightarrow> string option \<Rightarrow> hp_input \<Rightarrow> exn + props" where
  "make_props esc force dflt iterables =
     (case iterables of
        DictInput kvs \<Rightarrow> props_of_dict esc force dflt kvs []
      | IterInput vs \<Rightarrow> props_of_iter esc force dflt vs [])"


text \<open>
  The requests of the modelled functions, the response of the session, and the
  task.  The set comprehension of \<^verbatim>\<open>delete_hyper_params\<close> has no order of its own, so
  the keys of a delete request are a set.  An entry of a response is the task id it
  is for and its hyper-parameters, each a dictionary.  \<^verbatim>\<open>send\<close> may raise.
\<close>

datatype request =
    GetHyperParamsRequest "string list"
  | EditHyperParamsRequest string "params_item list" "string option"
  | DeleteHyperParamsRequest string "(string \<times> string) set"

record response_entry =
  e_task :: "string option"
  e_hyperparams :: "str_dict list option"

record response =
  r_ok :: bool
  r_params :: "response_entry list"

type_synonym hyperparams = "(string \<times> props) list"

record task =
  task_id :: string
  is_offline :: bool
  data_hyperparams :: "hyperparams option"

record session_env =
  api_version :: "nat \<times> nat"
  send :: "request \<Rightarrow> exn + response"

text \<open>
  What a call does to the world outside: the requests it sends, the reloads of the
  task, and the offline save, in order.
\<close>

datatype effect = Sent request | Reloaded | Saved_offline hyperparams

text \<open>
  The offline branch of \<^verbatim>\<open>edit_hyper_params\<close>:
  \<^verbatim>\<open>hyperparams.setdefault("properties", ...)\<close> and
  \<^verbatim>\<open>hyperparams["properties"].update(props)\<close>.
\<close>

definition offline_hyperparams :: "hyperparams option \<Rightarrow> props \<Rightarrow> hyperparams" where
  "offline_hyperparams saved props =
     (let hyperparams = (case saved of None \<Rightarrow> [] | Some h \<Rightarrow> h);
          hyperparams1 = (if ''properties'' \<in> set (map fst hyperparams) then hyperparams
                          else AList.update ''properties'' [] hyperparams);
          properties = (case map_of hyperparams1 ''properties'' of None \<Rightarrow> [] | Some ps \<Rightarrow> ps)
      in AList.update ''properties'' (AList.updates (map fst props) (map snd props) properties)
           hyperparams1)"

definition edit_hyper_params ::
  "session_env \<Rightarrow> task \<Rightarrow> hp_input \<Rightarrow> string option \<Rightarrow> string option \<Rightarrow> string option
     \<Rightarrow> (exn + bool) \<times> effect list" where
  "edit_hyper_params env tsk iterables replace default_section force_section =
     (if \<not> check_min_api_version (api_version env) (2, 9) then (Inl ValueError, [])
      else
        let escape_unsafe = \<not> check_min_api_version (api_version env) (2, 11);
            replace' = (if \<not> replace_has_value replace then None else replace)
        in (case make_props escape_unsafe force_section default_section iterables of
              Inl e \<Rightarrow> (Inl e, [])
            | Inr props \<Rightarrow>
                if is_offline tsk then
                  (Inr True, [Saved_offline (offline_hyperparams (data_hyperparams tsk) props)])
                else
                  (case send env (EditHyperParamsRequest (task_id tsk) (map snd props) replace') of
                     Inl e \<Rightarrow> (Inl e, [Sent (EditHyperParamsRequest (task_id tsk) (map snd props) replace')])
                   | Inr res \<Rightarrow>
                       if r_ok res then
                         (Inr True,
                          [Sent (EditHyperParamsRequest (task_id tsk) (map snd props) replace'), Reloaded])
                       else
                         (Inr False,
                          [Sent (EditHyperParamsRequest (task_id tsk) (map snd props) replace')]))))"

text \<open>
  The values \<^verbatim>\<open>get_key\<close> of \<^verbatim>\<open>delete_hyper_params\<close> tells apart: a dictionary, an API
  object with section and name, and any other iterable (given by the \<^verbatim>\<open>str\<close> of its
  items).  \<^verbatim>\<open>get_key\<close> returns the tuple \<^verbatim>\<open>key\<close> when all its components are true; the
  request is built by unpacking each key into section and name, which raises
  \<^verbatim>\<open>ValueError\<close> for a tuple that does not have two components.
\<close>

datatype key_value =
    KDict str_dict
  | KObject "string option" "string option"
  | KIter "string list"

definition get_key :: "key_value \<Rightarrow> exn + string list" where
  "get_key v =
     (let key = (case v of
                   KDict d \<Rightarrow> [dict_get d ''section'', dict_get d ''name'']
                 | KObject sec n \<Rightarrow> [sec, n]
                 | KIter vs \<Rightarrow> take 2 (map Some vs))
      in if \<not> list_all truthy key then Inl ValueError
         else Inr (map (\<lambda>x. case x of None \<Rightarrow> [] | Some s \<Rightarrow> s) key))"

fun get_keys :: "key_value list \<Rightarrow> exn + string list list" where
  "get_keys [] = Inr []"
| "get_keys (v # vs) =
     (case get_key v of
        Inl e \<Rightarrow> Inl e
      | Inr key \<Rightarrow> (case get_keys vs of Inl e \<Rightarrow> Inl e | Inr keys \<Rightarrow> Inr (key # keys)))"

fun param_keys :: "string list list \<Rightarrow> exn + (string \<times> string) list" where
  "param_keys [] = Inr []"
| "param_keys (key # keys) =
     (case key of
        [sec, n] \<Rightarrow> (case param_keys keys of Inl e \<Rightarrow> Inl e | Inr ks \<Rightarrow> Inr ((sec, n) # ks))
      | _ \<Rightarrow> Inl ValueError)"

definition delete_hyper_params ::
  "session_env \<Rightarrow> task \<Rightarrow> key_value list list \<Rightarrow> (exn + bool) \<times> effect list" where
  "delete_hyper_params env tsk iterables =
     (if \<not> check_min_api_version (api_version env) (2, 9) then (Inl ValueError, [])
      else
        (case get_keys (concat iterables) of
           Inl e \<Rightarrow> (Inl e, [])
         | Inr keys \<Rightarrow>
             (case param_keys keys of
                Inl e \<Rightarrow> (Inl e, [])
              | Inr ks \<Rightarrow>
                  (case send env (DeleteHyperParamsRequest (task_id tsk) (set ks)) of
                     Inl e \<Rightarrow> (Inl e, [Sent (DeleteHyperParamsRequest (task_id tsk) (set ks))])
                   | Inr res \<Rightarrow>
                       if r_ok res then
                         (Inr True, [Sent (DeleteHyperParamsRequest (task_id tsk) (set ks)), Reloaded])
                       else
                         (Inr False, [Sent (DeleteHyperParamsRequest (task_id tsk) (set ks))])))))"

text \<open>
  \<^verbatim>\<open>get_hyper_params\<close>.  An item of the response is a dictionary; with
  \<^verbatim>\<open>return_obj\<close> the code replaces it by a fresh \<^verbatim>\<open>tasks.ParamsItem()\<close>, whose class
  is not part of the sources: \<open>object_get\<close> is what \<^verbatim>\<open>.get(key)\<close> on that object
  does.  The selector and the projector are callables that may raise; an exception
  while one item is processed is logged and the loop goes on with the next item.  The
  result maps a section and a name to the item or to its projection.
\<close>

datatype hp_item = DictItem str_dict | ObjectItem

datatype 'r hp_entry = Plain hp_item | Projected 'r

type_synonym 'r hp_result = "(string option \<times> (string option \<times> 'r hp_entry) list) list"

definition touch_section :: "string option \<Rightarrow> 'r hp_result \<Rightarrow> 'r hp_result" where
  "touch_section sec hyperparams =
     (if sec \<in> set (map fst hyperparams) then hyperparams else AList.update sec [] hyperparams)"

definition store_entry :: "string option \<Rightarrow> string option \<Rightarrow> 'r hp_entry \<Rightarrow> 'r hp_result \<Rightarrow> 'r hp_result" where
  "store_entry sec n v hyperparams =
     AList.update sec
       (AList.update n v (case map_of hyperparams sec of None \<Rightarrow> [] | Some inner \<Rightarrow> inner))
       hyperparams"

text \<open>
  The body of the loop over the items, with its \<^verbatim>\<open>try\<close>/\<^verbatim>\<open>except Exception\<close>: the result
  is the dictionary after the item.  In the assignment
  \<^verbatim>\<open>hyperparams[item.get("section")][item.get("name")] = ...\<close> Python evaluates the
  right-hand side first, then the section (the default dictionary creates a missing
  section when it is read), then the name.
\<close>

definition process_item ::
  "(string \<Rightarrow> exn + string option) \<Rightarrow> string list option \<Rightarrow> (hp_item \<Rightarrow> exn + bool) option
     \<Rightarrow> (hp_item \<Rightarrow> exn + 'r) option \<Rightarrow> bool \<Rightarrow> str_dict \<Rightarrow> 'r hp_result \<Rightarrow> 'r hp_result" where
  "process_item object_get sections selector projector return_obj d hyperparams =
     (let section_filtered =
            (case sections of
               None \<Rightarrow> False
             | Some secs \<Rightarrow> secs \<noteq> [] \<and> dict_get d ''section'' \<notin> set (map Some secs))
      in if section_filtered then hyperparams
         else
          (case (case selector of None \<Rightarrow> Inr True | Some sel \<Rightarrow> sel (DictItem d)) of
             Inl e \<Rightarrow> hyperparams
           | Inr selected \<Rightarrow>
               if \<not> selected then hyperparams
               else
                 let item = (if return_obj then ObjectItem else DictItem d);
                     lookup = (\<lambda>k. if return_obj then object_get k else Inr (dict_get d k))
                 in (case (case projector of
                             None \<Rightarrow> Inr (Plain item)
                           | Some proj \<Rightarrow> (case proj item of Inl e \<Rightarrow> Inl e | Inr v \<Rightarrow> Inr (Projected v))) of
                       Inl e \<Rightarrow> hyperparams
                     | Inr entry \<Rightarrow>
                        (case lookup ''section'' of
                           Inl e \<Rightarrow> hyperparams
                         | Inr sec \<Rightarrow>
                            (case lookup ''name'' of
                               Inl e \<Rightarrow> touch_section sec hyperparams
                             | Inr n \<Rightarrow> store_entry sec n entry hyperparams)))))"

fun process_items ::
  "(string \<Rightarrow> exn + string option) \<Rightarrow> string list option \<Rightarrow> (hp_item \<Rightarrow> exn + bool) option
     \<Rightarrow> (hp_item \<Rightarrow> exn + 'r) option \<Rightarrow> bool \<Rightarrow> str_dict list \<Rightarrow> 'r hp_result \<Rightarrow> 'r hp_result" where
  "process_items object_get sections selector projector return_obj [] hyperparams = hyperparams"
| "process_items object_get sections selector projector return_obj (d # ds) hyperparams =
     process_items object_get sections selector projector return_obj ds
       (process_item object_get sections selector projector return_obj d hyperparams)"

fun process_entries ::
  "(string \<Rightarrow> exn + string option) \<Rightarrow> string \<Rightarrow> string list option \<Rightarrow> (hp_item \<Rightarrow> exn + bool) option
     \<Rightarrow> (hp_item \<Rightarrow> exn + 'r) option \<Rightarrow> bool \<Rightarrow> response_entry list \<Rightarrow> 'r hp_result \<Rightarrow> 'r hp_result" where
  "process_entries object_get tid sections selector projector return_obj [] hyperparams = hyperparams"
| "process_entries object_get tid sections selector projector return_obj (entry # entries) hyperparams =
     process_entries object_get tid sections selector projector return_obj entries
       (if e_task entry = Some tid then
          process_items object_get sections selector projector return_obj
            (case e_hyperparams entry of None \<Rightarrow> [] | Some items \<Rightarrow> items) hyperparams
        else hyperparams)"

definition get_hyper_params ::
  "session_env \<Rightarrow> (string \<Rightarrow> exn + string option) \<Rightarrow> task \<Rightarrow> string list option
     \<Rightarrow> (hp_item \<Rightarrow> exn + bool) option \<Rightarrow> (hp_item \<Rightarrow> exn + 'r) option \<Rightarrow> bool
     \<Rightarrow> (exn + 'r hp_result) \<times> effect list" where
  "get_hyper_params env object_get tsk sections selector projector return_obj =
     (if \<not> check_min_api_version (api_version env) (2, 9) then (Inl ValueError, [])
      else
        (case send env (GetHyperParamsRequest [task_id tsk]) of
           Inl e \<Rightarrow> (Inl e, [Sent (GetHyperParamsRequest [task_id tsk])])
         | Inr res \<Rightarrow>
             (Inr (if r_ok res \<and> r_params res \<noteq> [] then
                     process_entries object_get (task_id tsk) sections selector projector return_obj
                       (r_params res) []
                   else []),
              [Sent (GetHyperParamsRequest [task_id tsk])])))"

section \<open>Interception of framework save and load calls (binding/frameworks/__init__.py)\<close>

text \<open>
  A path argument is \<^verbatim>\<open>None\<close>, a string, a bytes object, an \<^verbatim>\<open>os.PathLike\<close> object
  (given by the path it stands for), or an object of another type, given by its
  identity and its truth value.  \<^verbatim>\<open>os.path.abspath\<close> raises \<^verbatim>\<open>TypeError\<close> on an
  object of another type and on \<^verbatim>\<open>None\<close> ("not a recognized type" in the source); it
  maps a string and a path-like object to a string and bytes to bytes.  What it maps
  a path to depends on the working directory, and it raises when the working
  directory cannot be read (\<^verbatim>\<open>FileNotFoundError\<close> when it has been removed): the
  function on paths is a parameter that returns a path or raises.
\<close>

datatype pyval = PNone | PStr string | PBytes string | PPathLike string | PObj nat bool

definition val_truthy :: "pyval \<Rightarrow> bool" where
  "val_truthy v =
     (case v of
        PNone \<Rightarrow> False
      | PStr s \<Rightarrow> s \<noteq> []
      | PBytes s \<Rightarrow> s \<noteq> []
      | PPathLike s \<Rightarrow> True
      | PObj _ b \<Rightarrow> b)"

definition val_or :: "pyval \<Rightarrow> pyval \<Rightarrow> pyval" where
  "val_or a b = (if val_truthy a then a else b)"

text \<open>
  \<^verbatim>\<open>InputModel\<close> and \<^verbatim>\<open>OutputModel\<close> objects: the attributes the code reads.  Reading
  \<^verbatim>\<open>config_dict\<close> or \<^verbatim>\<open>config_text\<close> may raise.  The object of the framework that
  is saved or loaded (\<^verbatim>\<open>model\<close>) is given by its truth value and its \<^verbatim>\<open>name\<close>
  attribute, if it has one.
\<close>

record trains_model =
  m_id :: string
  m_url :: string
  m_upload_storage_uri :: "string option"
  m_config_dict :: "exn + string option"
  m_config_text :: "exn + string option"

record py_object =
  obj_truthy :: bool
  obj_name :: "string option"

text \<open>
  The task: its name, its output URI, what \<^verbatim>\<open>get_labels_enumeration()\<close> returns or
  raises, and \<^verbatim>\<open>connect\<close>, which may raise and may change the model object it is
  given (the result is the object after the call).
\<close>

record wtask =
  t_name :: string
  t_output_uri :: "string option"
  t_labels :: "exn + string"
  t_connect :: "trains_model option \<Rightarrow> exn + trains_model option"

record model_info =
  mi_model :: "trains_model option"
  upload_filename :: "string option"
  local_model_path :: pyval
  local_model_id :: pyval
  framework :: "string option"
  mi_task :: wtask
  weights_object :: "py_object option"

datatype callback_type = Save | Load

text \<open>
  A callback gets the action and the current \<^verbatim>\<open>model_info\<close> (which is \<^verbatim>\<open>None\<close> once a
  callback has returned \<^verbatim>\<open>None\<close>) and returns the new one or raises.  A callback that
  changes the object it is given and then raises is, for the code after the loop,
  the callback that returns the changed object.
\<close>

type_synonym callback = "callback_type \<Rightarrow> model_info option \<Rightarrow> exn + model_info option"

text \<open>
  The loop \<^verbatim>\<open>for cb in list(callbacks.values()): try: model_info = cb(action, model_info)
  except Exception: pass\<close>.
\<close>

fun run_callbacks :: "callback list \<Rightarrow> callback_type \<Rightarrow> model_info option \<Rightarrow> model_info option" where
  "run_callbacks [] action mi = mi"
| "run_callbacks (cb # cbs) action mi =
     run_callbacks cbs action (case cb action mi of Inl _ \<Rightarrow> mi | Inr mi' \<Rightarrow> mi')"

text \<open>
  The arguments of the calls into the model registry, which is not part of the
  modelled sources, and the registry itself as the parameters of the model:
  constructors and class methods return a model or raise; a method that updates a
  model returns the model after the call.  The file system is read through
  \<^verbatim>\<open>pathlib\<close>; \<open>copy_to_temp\<close> is \<^verbatim>\<open>mkstemp\<close>, \<^verbatim>\<open>os.close\<close> and \<^verbatim>\<open>shutil.copy\<close>
  and returns the name of the temporary file.
\<close>

record import_args =
  ia_weights_url :: pyval
  ia_config_dict :: "string option"
  ia_config_text :: "string option"
  ia_name :: string
  ia_label_enumeration :: string
  ia_framework :: "string option"
  ia_create_as_published :: bool

record output_args =
  oa_config_dict :: "string option"
  oa_config_text :: "string option"
  oa_name :: "string option"
  oa_label_enumeration :: string
  oa_framework :: "string option"
  oa_base_model_id :: "string option"

datatype upload_call =
    Update_weights_package "string list" "string option"
  | Update_weights_copy string "string option"
  | Update_weights_register pyval bool

record registry_env =
  os_abspath :: "string \<Rightarrow> exn + string"
  InputModel_init :: "string \<Rightarrow> exn + trains_model"
  InputModel_import_model :: "import_args \<Rightarrow> exn + trains_model"
  InputModel_load_model :: "pyval \<Rightarrow> exn + trains_model option"
  OutputModel_init :: "wtask \<Rightarrow> output_args \<Rightarrow> exn + trains_model"
  update_weights :: "trains_model \<Rightarrow> upload_call \<Rightarrow> exn + trains_model"
  path_is_dir :: "string \<Rightarrow> bool"
  path_rglob :: "string \<Rightarrow> exn + string list"
  path_glob_siblings :: "string \<Rightarrow> exn + string list"
  path_absolute :: "string \<Rightarrow> string"
  path_name :: "string \<Rightarrow> string"
  path_stem :: "string \<Rightarrow> string"
  copy_to_temp :: "string \<Rightarrow> exn + string"
  pytorch_lightning_loaded :: bool

definition py_abspath :: "registry_env \<Rightarrow> pyval \<Rightarrow> exn + pyval" where
  "py_abspath env v =
     (case v of
        PStr s \<Rightarrow> (case os_abspath env s of Inl e \<Rightarrow> Inl e | Inr p \<Rightarrow> Inr (PStr p))
      | PBytes s \<Rightarrow> (case os_abspath env s of Inl e \<Rightarrow> Inl e | Inr p \<Rightarrow> Inr (PBytes p))
      | PPathLike s \<Rightarrow> (case os_abspath env s of Inl e \<Rightarrow> Inl e | Inr p \<Rightarrow> Inr (PStr p))
      | _ \<Rightarrow> Inl TypeError)"

text \<open>
  \<^verbatim>\<open>Path(v)\<close> takes a string or a path-like object and raises \<^verbatim>\<open>TypeError\<close> for any
  other value.
\<close>

definition py_path :: "pyval \<Rightarrow> exn + string" where
  "py_path v = (case v of PStr s \<Rightarrow> Inr s | PPathLike s \<Rightarrow> Inr s | _ \<Rightarrow> Inl TypeError)"

text \<open>
  The state the two functions act on: the dictionary
  \<^verbatim>\<open>Model._local_model_to_id_uri\<close>, the lock
  \<^verbatim>\<open>WeightsFileHandler._model_store_lookup_lock\<close>, and the log of what was done to
  the two, in order.  \<^verbatim>\<open>acquire\<close> is modelled at the moment it succeeds: a thread
  that finds the lock held waits, which a sequential run does not show.
\<close>

datatype lock_event = Acquire | Release | Cache_read pyval | Cache_write pyval

record wstate =
  local_model_to_id_uri :: "pyval \<rightharpoonup> string \<times> string"
  lock_held :: bool
  events :: "lock_event list"

definition acquire :: "wstate \<Rightarrow> wstate" where
  "acquire w = w\<lparr>lock_held := True, events := events w @ [Acquire]\<rparr>"

definition release :: "wstate \<Rightarrow> wstate" where
  "release w = w\<lparr>lock_held := False, events := events w @ [Release]\<rparr>"

text \<open>\<^verbatim>\<open>Model._local_model_to_id_uri.get(key, (None, None))\<close> and the assignment to a key.\<close>

definition cache_get :: "pyval \<Rightarrow> wstate \<Rightarrow> (string \<times> string) option \<times> wstate" where
  "cache_get key w = (local_model_to_id_uri w key, w\<lparr>events := events w @ [Cache_read key]\<rparr>)"

definition cache_set :: "pyval \<Rightarrow> string \<times> string \<Rightarrow> wstate \<Rightarrow> wstate" where
  "cache_set key v w =
     w\<lparr>local_model_to_id_uri := (local_model_to_id_uri w)(key \<mapsto> v),
       events := events w @ [Cache_write key]\<rparr>"

text \<open>
  The \<^verbatim>\<open>try\<close> statement of \<^verbatim>\<open>restore_weights_file\<close> that reads \<^verbatim>\<open>config_dict\<close> and, when
  that raises, \<^verbatim>\<open>config_text\<close>: the pair \<open>(config_dict, config_text)\<close> after it.
\<close>

definition model_config :: "trains_model option \<Rightarrow> string option \<times> string option" where
  "model_config trains_in_model =
     (case trains_in_model of
        None \<Rightarrow> (None, None)
      | Some m \<Rightarrow>
          (case m_config_dict m of
             Inr config_dict \<Rightarrow> (config_dict, None)
           | Inl _ \<Rightarrow> (None, (case m_config_text m of Inr t \<Rightarrow> t | Inl _ \<Rightarrow> None))))"

text \<open>
  The branch \<^verbatim>\<open>if not trains_in_model\<close> of \<^verbatim>\<open>restore_weights_file\<close>: look the model up
  in the dictionary, build an \<^verbatim>\<open>InputModel\<close> for a cached id, and import the model when
  there is no usable id.
\<close>

definition find_or_import_model ::
  "registry_env \<Rightarrow> wtask \<Rightarrow> string option \<Rightarrow> py_object option
     \<Rightarrow> string option \<times> string option \<Rightarrow> model_info \<Rightarrow> wstate
     \<Rightarrow> (exn + trains_model) \<times> wstate" where
  "find_or_import_model env tsk frmwork model config mi w =
     (let model_name_id =
            (case model of
               None \<Rightarrow> []
             | Some ob \<Rightarrow> if obj_truthy ob then (case obj_name ob of None \<Rightarrow> [] | Some n \<Rightarrow> n) else [])
      in (case cache_get (val_or (local_model_id mi) (local_model_path mi)) w of
            (cached, w1) \<Rightarrow>
              let model_id = (case cached of None \<Rightarrow> None | Some (i, u) \<Rightarrow> Some i);
                  found = (case model_id of
                             None \<Rightarrow> None
                           | Some i \<Rightarrow>
                               if i = [] then None
                               else (case InputModel_init env i of Inl _ \<Rightarrow> None | Inr m \<Rightarrow> Some m))
              in (case found of
                    Some m \<Rightarrow> (Inr m, w1)
                  | None \<Rightarrow>
                      (case t_labels tsk of
                         Inl e \<Rightarrow> (Inl e, w1)
                       | Inr labels \<Rightarrow>
                           (InputModel_import_model env
                              \<lparr>ia_weights_url = local_model_path mi,
                               ia_config_dict = fst config,
                               ia_config_text = snd config,
                               ia_name = (if model_name_id \<noteq> [] then t_name tsk @ '' '' @ model_name_id
                                          else []),
                               ia_label_enumeration = labels,
                               ia_framework = frmwork,
                               ia_create_as_published = False\<rparr>,
                            w1)))))"

text \<open>
  The model the body of \<^verbatim>\<open>restore_weights_file\<close> goes on with: the one a pre
  callback has put into \<^verbatim>\<open>model_info.model\<close>, else the one found or imported.
\<close>

definition resolve_in_model ::
  "registry_env \<Rightarrow> wtask \<Rightarrow> string option \<Rightarrow> py_object option \<Rightarrow> model_info \<Rightarrow> wstate
     \<Rightarrow> (exn + trains_model) \<times> wstate" where
  "resolve_in_model env tsk frmwork model mi w =
     (case mi_model mi of
        Some m \<Rightarrow> (Inr m, w)
      | None \<Rightarrow> find_or_import_model env tsk frmwork model (model_config (mi_model mi)) mi w)"

text \<open>
  The body of the \<^verbatim>\<open>try\<close> statement of \<^verbatim>\<open>restore_weights_file\<close> after the lock is
  acquired.  It ends with an exception or with the assignment to the dictionary; the
  result then is the \<^verbatim>\<open>model_info\<close> and the model whose id and url were stored.
  Reading an attribute of \<^verbatim>\<open>None\<close> raises \<^verbatim>\<open>AttributeError\<close>.
\<close>

definition restore_body ::
  "registry_env \<Rightarrow> callback list \<Rightarrow> wtask \<Rightarrow> string option \<Rightarrow> py_object option \<Rightarrow> model_info
     \<Rightarrow> wstate \<Rightarrow> (exn + model_info \<times> trains_model) \<times> wstate" where
  "restore_body env post_callbacks tsk frmwork model mi w =
     (case resolve_in_model env tsk frmwork model mi w of
        (Inl e, w1) \<Rightarrow> (Inl e, w1)
      | (Inr trains_in_model, w1) \<Rightarrow>
          (case run_callbacks post_callbacks Load (Some (mi\<lparr>mi_model := Some trains_in_model\<rparr>)) of
             None \<Rightarrow> (Inl AttributeError, w1)
           | Some mi2 \<Rightarrow>
               (case t_connect tsk (mi_model mi2) of
                  Inl e \<Rightarrow> (Inl e, w1)
                | Inr None \<Rightarrow> (Inl AttributeError, w1)
                | Inr (Some m) \<Rightarrow>
                    (Inr (mi2, m), cache_set (local_model_id mi2) (m_id m, m_url m) w1))))"

text \<open>
  \<^verbatim>\<open>WeightsFileHandler.restore_weights_file(model, filepath, framework, task)\<close>.  The
  exception of the body is logged and dropped; the \<^verbatim>\<open>finally\<close> block releases the
  lock.  The block under \<^verbatim>\<open>if False and running_remotely()\<close> is never run.
\<close>

definition restore_weights_file ::
  "callback handler_state \<Rightarrow> registry_env \<Rightarrow> py_object option \<Rightarrow> pyval \<Rightarrow> string option
     \<Rightarrow> wtask option \<Rightarrow> wstate \<Rightarrow> (exn + pyval) \<times> wstate" where
  "restore_weights_file cls env model filepath frmwork tsk w =
     (case tsk of
        None \<Rightarrow> (Inr filepath, w)
      | Some t \<Rightarrow>
          (case (if val_truthy filepath then py_abspath env filepath else Inr filepath) of
             Inl e \<Rightarrow> (if e = TypeError then (Inr filepath, w) else (Inl e, w))
           | Inr lmp \<Rightarrow>
               (case run_callbacks (registry_values (model_pre_callbacks cls)) Load
                       (Some \<lparr>mi_model = None, upload_filename = None, local_model_path = lmp,
                              local_model_id = filepath, framework = frmwork, mi_task = t,
                              weights_object = None\<rparr>) of
                  None \<Rightarrow> (Inr filepath, w)
                | Some mi \<Rightarrow>
                    if \<not> val_truthy (local_model_path mi) then (Inr filepath, w)
                    else
                      (case restore_body env (registry_values (model_post_callbacks cls)) t frmwork
                              model mi (acquire w) of
                         (_, w2) \<Rightarrow> (Inr filepath, release w2)))))"

text \<open>
  The files \<^verbatim>\<open>create_output_model\<close> finds for a path, and the target file name it
  derives: the stem of the path for more than one file, else the name of the first
  file (\<^verbatim>\<open>files[0]\<close> raises \<^verbatim>\<open>IndexError\<close> when there is none).
\<close>

definition output_files :: "registry_env \<Rightarrow> pyval \<Rightarrow> bool \<Rightarrow> exn + string list" where
  "output_files env lmp singlefile =
     (case py_path lmp of
        Inl e \<Rightarrow> Inl e
      | Inr p \<Rightarrow>
          if path_is_dir env p then path_rglob env p
          else if singlefile then Inr [path_absolute env p]
          else path_glob_siblings env p)"

definition output_target_filename :: "registry_env \<Rightarrow> pyval \<Rightarrow> string list \<Rightarrow> exn + string option" where
  "output_target_filename env lmp files =
     (if length files > 1 then
        (case py_path lmp of Inl _ \<Rightarrow> Inr None | Inr p \<Rightarrow> Inr (Some (path_stem env p)))
      else (case files of [] \<Rightarrow> Inl IndexError | f # _ \<Rightarrow> Inr (Some (path_name env f))))"

datatype config_obj = Config_none | Config_str string | Config_dict string

text \<open>
  The branch \<^verbatim>\<open>if trains_out_model is None\<close> of \<^verbatim>\<open>create_output_model\<close>: look the path
  up in the dictionary, else (when the task has no output URI) ask the registry for
  a model registered for the path, and build the \<^verbatim>\<open>OutputModel\<close>.
\<close>

definition make_output_model ::
  "registry_env \<Rightarrow> wtask \<Rightarrow> string option \<Rightarrow> string option \<Rightarrow> config_obj \<Rightarrow> model_info \<Rightarrow> wstate
     \<Rightarrow> (exn + trains_model) \<times> wstate" where
  "make_output_model env tsk frmwork model_name config mi w =
     (case cache_get (val_or (local_model_id mi) (local_model_path mi)) w of
        (cached, w1) \<Rightarrow>
          let cached_id = (case cached of None \<Rightarrow> None | Some (i, u) \<Rightarrow> Some i);
              in_model_id =
                (if truthy cached_id then cached_id
                 else if \<not> truthy (t_output_uri tsk) then
                   (case InputModel_load_model env (local_model_path mi) of
                      Inl _ \<Rightarrow> None
                    | Inr None \<Rightarrow> None
                    | Inr (Some m) \<Rightarrow> Some (m_id m))
                 else None);
              name = (if truthy in_model_id then Inr None
                      else if truthy model_name then
                        Inr (Some (t_name tsk @ '' - '' @ (case model_name of None \<Rightarrow> [] | Some n \<Rightarrow> n)))
                      else (case py_path (local_model_path mi) of
                              Inl e \<Rightarrow> Inl e
                            | Inr p \<Rightarrow> Inr (Some (t_name tsk @ '' - '' @ path_stem env p))))
          in (case name of
                Inl e \<Rightarrow> (Inl e, w1)
              | Inr nm \<Rightarrow>
                  (case t_labels tsk of
                     Inl e \<Rightarrow> (Inl e, w1)
                   | Inr labels \<Rightarrow>
                       (OutputModel_init env tsk
                          \<lparr>oa_config_dict = (case config of Config_dict d \<Rightarrow> Some d | _ \<Rightarrow> None),
                           oa_config_text = (case config of Config_str t \<Rightarrow> Some t | _ \<Rightarrow> None),
                           oa_name = nm,
                           oa_label_enumeration = labels,
                           oa_framework = frmwork,
                           oa_base_model_id = in_model_id\<rparr>,
                        w1))))"

text \<open>\<^verbatim>\<open>str.lower\<close> on the ASCII letters, for the test of the \<^verbatim>\<open>.part\<close> suffix.\<close>

definition lower_char :: "char \<Rightarrow> char" where
  "lower_char c =
     (if (65::nat) \<le> of_char c \<and> of_char c \<le> (90::nat) then char_of (of_char c + (32::nat)) else c)"

text \<open>
  The upload at the end of \<^verbatim>\<open>create_output_model\<close>: the model after
  \<^verbatim>\<open>update_weights_package\<close> or \<^verbatim>\<open>update_weights\<close>.
\<close>

definition upload_model ::
  "registry_env \<Rightarrow> trains_model \<Rightarrow> string list \<Rightarrow> string option \<Rightarrow> pyval \<Rightarrow> exn + trains_model" where
  "upload_model env trains_out_model files target_filename lmp =
     (if truthy (m_upload_storage_uri trains_out_model) then
        (if length files > 1 then
           update_weights env trains_out_model (Update_weights_package files target_filename)
         else
           (case (if pytorch_lightning_loaded env then
                    (case target_filename of
                       None \<Rightarrow> Inl AttributeError
                     | Some tf \<Rightarrow>
                         if endswith (map lower_char tf) [''.part'']
                         then Inr (Some (take (length tf - length ''.part'') tf))
                         else Inr (Some tf))
                  else Inr target_filename) of
              Inl e \<Rightarrow> Inl e
            | Inr target_filename' \<Rightarrow>
                (case files of
                   [] \<Rightarrow> Inl IndexError
                 | f # _ \<Rightarrow>
                     (case copy_to_temp env f of
                        Inl e \<Rightarrow> Inl e
                      | Inr temp_file \<Rightarrow>
                          update_weights env trains_out_model
                            (Update_weights_copy temp_file target_filename')))))
      else
        update_weights env trains_out_model (Update_weights_register lmp (length files > 1)))"

text \<open>
  The end of the body of \<^verbatim>\<open>create_output_model\<close>, from
  \<^verbatim>\<open>model_info.model = trains_out_model\<close> on: the post callbacks, the upload and
  the assignment to the dictionary.  \<^verbatim>\<open>model_info.weights_object = None\<close> after the
  loop of the callbacks raises \<^verbatim>\<open>AttributeError\<close> when a callback has returned
  \<^verbatim>\<open>None\<close>, and so does reading an attribute of a model that is \<^verbatim>\<open>None\<close>.
\<close>

definition finish_output_model ::
  "registry_env \<Rightarrow> callback list \<Rightarrow> py_object option \<Rightarrow> string list \<Rightarrow> model_info
     \<Rightarrow> trains_model \<Rightarrow> wstate \<Rightarrow> (exn + (model_info \<times> trains_model) option) \<times> wstate" where
  "finish_output_model env post_callbacks model files mi3 trains_out_model w1 =
     (case run_callbacks post_callbacks Save
             (Some (mi3\<lparr>mi_model := Some trains_out_model, weights_object := model\<rparr>)) of
        None \<Rightarrow> (Inl AttributeError, w1)
      | Some mi4 \<Rightarrow>
          let mi5 = mi4\<lparr>weights_object := None\<rparr> in
          (case mi_model mi5 of
             None \<Rightarrow> (Inl AttributeError, w1)
           | Some m \<Rightarrow>
               (case upload_model env m files (upload_filename mi5) (local_model_path mi5) of
                  Inl e \<Rightarrow> (Inl e, w1)
                | Inr m' \<Rightarrow>
                    (Inr (Some (mi5, m')),
                     cache_set (local_model_id mi5) (m_id m', m_url m') w1))))"

text \<open>
  The model the body of \<^verbatim>\<open>create_output_model\<close> goes on with: the one a pre
  callback has put into \<^verbatim>\<open>model_info.model\<close>, else the \<^verbatim>\<open>OutputModel\<close> it builds.
\<close>

definition resolve_out_model ::
  "registry_env \<Rightarrow> wtask \<Rightarrow> string option \<Rightarrow> string option \<Rightarrow> config_obj \<Rightarrow> model_info \<Rightarrow> wstate
     \<Rightarrow> (exn + trains_model) \<times> wstate" where
  "resolve_out_model env tsk frmwork model_name config mi w =
     (case mi_model mi of
        Some m \<Rightarrow> (Inr m, w)
      | None \<Rightarrow> make_output_model env tsk frmwork model_name config mi w)"

text \<open>
  The body of the \<^verbatim>\<open>try\<close> statement of \<^verbatim>\<open>create_output_model\<close> after the lock is
  acquired.  It ends with an exception, with one of the \<^verbatim>\<open>return saved_path\<close>
  statements inside the \<^verbatim>\<open>try\<close> (the result \<open>None\<close>), or with the assignment to the
  dictionary; the result then is the \<^verbatim>\<open>model_info\<close> and the model whose id and url
  were stored.
\<close>

definition create_body ::
  "registry_env \<Rightarrow> callback list \<Rightarrow> callback list \<Rightarrow> wtask \<Rightarrow> py_object option \<Rightarrow> pyval
     \<Rightarrow> string option \<Rightarrow> bool \<Rightarrow> string option \<Rightarrow> config_obj \<Rightarrow> wstate
     \<Rightarrow> (exn + (model_info \<times> trains_model) option) \<times> wstate" where
  "create_body env pre_callbacks post_callbacks tsk model saved_path frmwork singlefile model_name
       config w =
     (case (if val_truthy saved_path then py_abspath env saved_path else Inr saved_path) of
        Inl e \<Rightarrow> (if e = TypeError then (Inr None, w) else (Inl e, w))
      | Inr lmp \<Rightarrow>
          if \<not> val_truthy lmp then (Inr None, w)
          else
            (case output_files env lmp singlefile of
               Inl e \<Rightarrow> (Inl e, w)
             | Inr files \<Rightarrow>
                 (case output_target_filename env lmp files of
                    Inl e \<Rightarrow> (Inl e, w)
                  | Inr target_filename \<Rightarrow>
                      (case run_callbacks pre_callbacks Save
                              (Some \<lparr>mi_model = None, upload_filename = target_filename,
                                     local_model_path = lmp, local_model_id = saved_path,
                                     framework = frmwork, mi_task = tsk, weights_object = model\<rparr>) of
                         None \<Rightarrow> (Inl AttributeError, w)
                       | Some mi2 \<Rightarrow>
                           let mi3 = mi2\<lparr>weights_object := None\<rparr> in
                           (case resolve_out_model env tsk frmwork model_name config mi3 w of
                              (Inl e, w1) \<Rightarrow> (Inl e, w1)
                            | (Inr m, w1) \<Rightarrow>
                                finish_output_model env post_callbacks model files mi3 m w1)))))"

text \<open>
  \<^verbatim>\<open>WeightsFileHandler.create_output_model(model, saved_path, framework, task,
  singlefile, model_name, config_obj)\<close>.  The lock is acquired first thing in the
  \<^verbatim>\<open>try\<close> statement; every way out of the body goes through the \<^verbatim>\<open>finally\<close> block.
  The read of \<^verbatim>\<open>task.id\<close> before the \<^verbatim>\<open>try\<close> statement, which completes a deferred
  task, is taken to return.
\<close>

definition create_output_model ::
  "callback handler_state \<Rightarrow> registry_env \<Rightarrow> py_object option \<Rightarrow> pyval \<Rightarrow> string option
     \<Rightarrow> wtask option \<Rightarrow> bool \<Rightarrow> string option \<Rightarrow> config_obj \<Rightarrow> wstate \<Rightarrow> (exn + pyval) \<times> wstate" where
  "create_output_model cls env model saved_path frmwork tsk singlefile model_name config w =
     (case tsk of
        None \<Rightarrow> (Inr saved_path, w)
      | Some t \<Rightarrow>
          (case create_body env (registry_values (model_pre_callbacks cls))
                  (registry_values (model_post_callbacks cls)) t model saved_path frmwork singlefile
                  model_name config (acquire w) of
             (_, w2) \<Rightarrow> (Inr saved_path, release w2)))"

section \<open>The patched save of CatBoost (binding/frameworks/catboost_bind.py)\<close>

text \<open>
  \<^verbatim>\<open>PatchCatBoostModelIO._save(original_fn, obj, f, *args, **kwargs)\<close>.  The original
  \<^verbatim>\<open>save_model\<close> is a function of the state that returns a value or raises;
  \<^verbatim>\<open>_current_task\<close> is the class attribute.  \<^verbatim>\<open>Path(filename).stem\<close> raises for
  \<^verbatim>\<open>None\<close>, which the \<^verbatim>\<open>try\<close> statement turns into the model name \<^verbatim>\<open>None\<close>.
\<close>

definition catboost_save ::
  "callback handler_state \<Rightarrow> registry_env \<Rightarrow> wtask option
     \<Rightarrow> (py_object \<Rightarrow> pyval \<Rightarrow> 'a \<Rightarrow> wstate \<Rightarrow> (exn + 'r) \<times> wstate)
     \<Rightarrow> py_object \<Rightarrow> pyval \<Rightarrow> 'a \<Rightarrow> wstate \<Rightarrow> (exn + 'r) \<times> wstate" where
  "catboost_save cls env current_task original_fn ob f args w =
     (case original_fn ob f args w of
        (Inl e, w1) \<Rightarrow> (Inl e, w1)
      | (Inr ret, w1) \<Rightarrow>
          (case current_task of
             None \<Rightarrow> (Inr ret, w1)
           | Some t \<Rightarrow>
               let filename = (case f of PStr s \<Rightarrow> PStr s | _ \<Rightarrow> PNone);
                   model_name = (case py_path filename of
                                   Inl _ \<Rightarrow> None
                                 | Inr p \<Rightarrow> Some (path_stem env p))
               in (case create_output_model cls env (Some ob) filename (Some ''CatBoost'') (Some t)
                          True model_name Config_none w1 of
                     (Inl e, w2) \<Rightarrow> (Inl e, w2)
                   | (Inr _, w2) \<Rightarrow> (Inr ret, w2))))"

text \<open>
  The lock discipline of a log: starting with the lock free or held, every
  \<^verbatim>\<open>acquire\<close> finds the lock free, every \<^verbatim>\<open>release\<close> and every read or write of the
  dictionary finds it held.  The result is whether the lock is held after the log,
  or \<open>None\<close> when the log breaks the discipline.
\<close>

fun lock_discipline :: "bool \<Rightarrow> lock_event list \<Rightarrow> bool option" where
  "lock_discipline held [] = Some held"
| "lock_discipline held (Acquire # es) = (if held then None else lock_discipline True es)"
| "lock_discipline held (Release # es) = (if held then lock_discipline False es else None)"
| "lock_discipline held (Cache_read k # es) = (if held then lock_discipline True es else None)"
| "lock_discipline held (Cache_write k # es) = (if held then lock_discipline True es else None)"

text \<open>The part of the log a call has added.\<close>

definition emitted :: "wstate \<Rightarrow> wstate \<Rightarrow> lock_event list" where
  "emitted w w' = drop (length (events w)) (events w')"

fun cache_event :: "lock_event \<Rightarrow> bool" where
  "cache_event (Cache_read k) = True"
| "cache_event (Cache_write k) = True"
| "cache_event Acquire = False"
| "cache_event Release = False"



text \<open>
  A registry, a task and a callback for concrete runs: the registry imports and
  creates the model \<open>id1\<close> at \<open>u1\<close>, finds nothing registered, and uploads without
  changing the model; the task connects any model; the callback replaces
  \<^verbatim>\<open>local_model_id\<close> by the string \<open>alias\<close>.
\<close>

definition example_model :: trains_model where
  "example_model = \<lparr>m_id = ''id1'', m_url = ''u1'', m_upload_storage_uri = None,
     m_config_dict = Inr None, m_config_text = Inr None\<rparr>"

definition example_registry :: registry_env where
  "example_registry =
     \<lparr>os_abspath = (\<lambda>s. Inr (''/work/'' @ s)),
      InputModel_init = (\<lambda>i. Inr example_model),
      InputModel_import_model = (\<lambda>a. Inr example_model),
      InputModel_load_model = (\<lambda>v. Inr None),
      OutputModel_init = (\<lambda>t a. Inr example_model),
      update_weights = (\<lambda>m c. Inr m),
      path_is_dir = (\<lambda>p. False),
      path_rglob = (\<lambda>p. Inr []),
      path_glob_siblings = (\<lambda>p. Inr []),
      path_absolute = (\<lambda>p. p),
      path_name = (\<lambda>p. p),
      path_stem = (\<lambda>p. p),
      copy_to_temp = (\<lambda>p. Inr ''/tmp/copy''),
      pytorch_lightning_loaded = False\<rparr>"

definition example_task :: wtask where
  "example_task = \<lparr>t_name = ''task'', t_output_uri = None, t_labels = Inr [],
     t_connect = (\<lambda>m. Inr m)\<rparr>"

definition alias_callback :: callback where
  "alias_callback action mi =
     Inr (case mi of None \<Rightarrow> None | Some i \<Rightarrow> Some (i\<lparr>local_model_id := PStr ''alias''\<rparr>))"

text \<open>
  More for concrete runs: a registry whose working directory has been removed, a
  task whose \<^verbatim>\<open>connect\<close> raises, and a callback that replaces the model by the model
  \<open>id2\<close> at \<open>u2\<close>.
\<close>

definition no_cwd_registry :: registry_env where
  "no_cwd_registry = example_registry\<lparr>os_abspath := (\<lambda>s. Inl FileNotFoundError)\<rparr>"

definition raising_task :: wtask where
  "raising_task = example_task\<lparr>t_connect := (\<lambda>m. Inl OtherError)\<rparr>"

definition swap_callback :: callback where
  "swap_callback action mi =
     Inr (case mi of
            None \<Rightarrow> None
          | Some i \<Rightarrow> Some (i\<lparr>mi_model := Some (example_model\<lparr>m_id := ''id2'', m_url := ''u2''\<rparr>)\<rparr>))"

definition no_callbacks :: "callback handler_state" where
  "no_callbacks = \<lparr>model_pre_callbacks = [], model_post_callbacks = []\<rparr>"

definition empty_state :: wstate where
  "empty_state = \<lparr>local_model_to_id_uri = Map.empty, lock_held = False, events = []\<rparr>"

text \<open>
  What the body of a \<^verbatim>\<open>try\<close> statement does to the state: it appends reads and writes
  of the dictionary to the log and leaves the lock alone.
\<close>

definition body_step :: "wstate \<Rightarrow> wstate \<Rightarrow> bool" where
  "body_step w w' =
     (\<exists>evs. events w' = events w @ evs \<and> list_all cache_event evs \<and> lock_held w' = lock_held w)"

section \<open>Theorems on the callback registry\<close>

lemma draw_handle_fresh:
  "\<not> registry_has_key target (draws j) \<Longrightarrow> j = i + k \<Longrightarrow>
   \<exists>h i'. draw_handle draws i target = Some (h, i') \<and> \<not> registry_has_key target h"
proof (induction k arbitrary: i)
  case 0
  then show ?case by (subst draw_handle.simps) simp
next
  case (Suc k)
  show ?case
  proof (cases "registry_has_key target (draws i)")
    case False
    then show ?thesis by (subst draw_handle.simps) simp
  next
    case True
    from Suc.prems have "j = Suc i + k" by simp
    from Suc.IH [OF Suc.prems(1) this] obtain h i' where
      "draw_handle draws (Suc i) target = Some (h, i')" "\<not> registry_has_key target h"
      by blast
    with True show ?thesis by (subst draw_handle.simps) simp
  qed
qed

lemma first_key_of_value:
  assumes "func \<in> set (registry_values target)"
  shows "\<exists>k ks. map fst (filter (\<lambda>(k, v). v = func) target) = k # ks \<and> (k, func) \<in> set target"
proof (cases "filter (\<lambda>(k, v). v = func) target")
  case Nil
  with assms show ?thesis
    by (auto simp: registry_values_def filter_empty_conv)
next
  case (Cons p ps)
  then have "p \<in> set (filter (\<lambda>(k, v). v = func) target)" by simp
  then have "(fst p, func) \<in> set target" by auto
  with Cons show ?thesis by simp
qed

lemma add_callback_registered:
  assumes "func \<in> set (registry_values target)"
  shows "\<exists>h. add_callback draws i func target = Some (Inr h, target, i) \<and> (h, func) \<in> set target"
proof -
  from first_key_of_value [OF assms] obtain k ks where
    "map fst (filter (\<lambda>(k, v). v = func) target) = k # ks \<and> (k, func) \<in> set target"
    by (elim exE)
  with assms show ?thesis by (simp add: add_callback_def)
qed

lemma add_callback_new:
  assumes "func \<notin> set (registry_values target)" "\<not> registry_has_key target (draws (i + k))"
  shows "\<exists>h i'. add_callback draws i func target = Some (Inr h, target @ [(h, func)], i')
           \<and> \<not> registry_has_key target h"
proof -
  from draw_handle_fresh [of target draws "i + k" i k] assms(2) obtain h i' where
    "draw_handle draws i target = Some (h, i')" "\<not> registry_has_key target h" by blast
  with assms(1) show ?thesis by (simp add: add_callback_def)
qed

lemma first_key_append_new:
  "func \<notin> set (registry_values target) \<Longrightarrow>
   map fst (filter (\<lambda>(k, v). v = func) (target @ [(h, func)])) = [h]"
  by (induction target) (auto simp: registry_values_def)

lemma add_callback_again:
  assumes "add_callback draws i func target = Some (Inr h, target', i')"
  shows "add_callback draws' j func target' = Some (Inr h, target', j)"
proof (cases "func \<in> set (registry_values target)")
  case True
  with assms show ?thesis
    by (auto simp: add_callback_def split: list.splits)
next
  case False
  with assms have t': "target' = target @ [(h, func)]"
    by (auto simp: add_callback_def split: option.splits)
  have "func \<in> set (registry_values target')" by (simp add: t' registry_values_def)
  with first_key_append_new [OF False, of h] show ?thesis
    by (simp add: add_callback_def t')
qed

lemma map_of_filter_key:
  "map_of (filter (\<lambda>(k, v). k \<noteq> h) target) = (map_of target)(h := None)"
  by (induction target) (auto simp: fun_eq_iff)

lemma remove_callback_present:
  assumes "registry_has_key target h"
  shows "remove_callback h target = (True, filter (\<lambda>(k, v). k \<noteq> h) target)"
    and "map_of (snd (remove_callback h target)) = (map_of target)(h := None)"
    and "\<not> registry_has_key (snd (remove_callback h target)) h"
  using assms 
  by (auto simp add: remove_callback_def registry_has_key_def map_of_filter_key)

text \<open>
  Claim C9.  Registration is idempotent and removal is exact.
  \<^item> Adding a function that is already a value of the registry returns a handle of that
    function and leaves the registry and the random generator unchanged.
  \<^item> Adding a function that is not registered, when some later draw of the random
    generator is not a key, returns a handle that was not a key and appends exactly the
    entry from that handle to the function.
  \<^item> Adding a function again after it was added returns the same handle and changes
    nothing.
  \<^item> Removing a handle that is a key returns True and deletes exactly that key;
    removing a handle that is not a key returns False and changes nothing; the second
    of two removals of the same handle returns False.
  \<^item> The pre and post class methods are these two operations on their own registry,
    the other registry being left as it is.
\<close>

theorem callback_registration_idempotent_removal_exact:
  "(func \<in> set (registry_values target) \<longrightarrow>
      (\<exists>h. add_callback draws i func target = Some (Inr h, target, i) \<and> (h, func) \<in> set target))
   \<and> (func \<notin> set (registry_values target) \<and> \<not> registry_has_key target (draws (i + k)) \<longrightarrow>
      (\<exists>h i'. add_callback draws i func target = Some (Inr h, target @ [(h, func)], i')
         \<and> \<not> registry_has_key target h))
   \<and> (add_callback draws i func target = Some (Inr h1, target1, i1) \<longrightarrow>
      add_callback draws' j func target1 = Some (Inr h1, target1, j))
   \<and> (registry_has_key target h0 \<longrightarrow>
      remove_callback h0 target = (True, filter (\<lambda>(k, v). k \<noteq> h0) target)
      \<and> map_of (snd (remove_callback h0 target)) = (map_of target)(h0 := None))
   \<and> (\<not> registry_has_key target h0 \<longrightarrow> remove_callback h0 target = (False, target))
   \<and> fst (remove_callback h0 (snd (remove_callback h0 target))) = False
   \<and> add_pre_callback draws i func cls =
       map_option (\<lambda>(r, t, n). (r, cls\<lparr>model_pre_callbacks := t\<rparr>, n))
         (add_callback draws i func (model_pre_callbacks cls))
   \<and> add_post_callback draws i func cls =
       map_option (\<lambda>(r, t, n). (r, cls\<lparr>model_post_callbacks := t\<rparr>, n))
         (add_callback draws i func (model_post_callbacks cls))
   \<and> remove_pre_callback h0 cls =
       (fst (remove_callback h0 (model_pre_callbacks cls)),
        cls\<lparr>model_pre_callbacks := snd (remove_callback h0 (model_pre_callbacks cls))\<rparr>)
   \<and> remove_post_callback h0 cls =
       (fst (remove_callback h0 (model_post_callbacks cls)),
        cls\<lparr>model_post_callbacks := snd (remove_callback h0 (model_post_callbacks cls))\<rparr>)"
proof (intro conjI impI)
  assume "func \<in> set (registry_values target)"
  then show "\<exists>h. add_callback draws i func target = Some (Inr h, target, i) \<and> (h, func) \<in> set target"
    by (rule add_callback_registered)
next
  assume "func \<notin> set (registry_values target) \<and> \<not> registry_has_key target (draws (i + k))"
  then have "func \<notin> set (registry_values target)"
    and "\<not> registry_has_key target (draws (i + k))" by simp_all
  then show "\<exists>h i'. add_callback draws i func target = Some (Inr h, target @ [(h, func)], i')
      \<and> \<not> registry_has_key target h"
    by (rule add_callback_new)
next
  assume "add_callback draws i func target = Some (Inr h1, target1, i1)"
  then show "add_callback draws' j func target1 = Some (Inr h1, target1, j)"
    by (rule add_callback_again)
next
  assume "registry_has_key target h0"
  then show "remove_callback h0 target = (True, filter (\<lambda>(k, v). k \<noteq> h0) target)"
    by (rule remove_callback_present)
next
  assume "registry_has_key target h0"
  then show "map_of (snd (remove_callback h0 target)) = (map_of target)(h0 := None)"
    by (rule remove_callback_present)
next
  assume "\<not> registry_has_key target h0"
  then show "remove_callback h0 target = (False, target)"
    by (simp add: remove_callback_def)
next
  show "fst (remove_callback h0 (snd (remove_callback h0 target))) = False"
  proof (cases "registry_has_key target h0")
    case True
    from remove_callback_present(3) [OF True] show ?thesis
      by (simp add: remove_callback_def)
  next
    case False
    then show ?thesis by (simp add: remove_callback_def)
  qed
next
  show "add_pre_callback draws i func cls =
       map_option (\<lambda>(r, t, n). (r, cls\<lparr>model_pre_callbacks := t\<rparr>, n))
         (add_callback draws i func (model_pre_callbacks cls))"
    by (simp add: add_pre_callback_def split: option.splits)
next
  show "add_post_callback draws i func cls =
       map_option (\<lambda>(r, t, n). (r, cls\<lparr>model_post_callbacks := t\<rparr>, n))
         (add_callback draws i func (model_post_callbacks cls))"
    by (simp add: add_post_callback_def split: option.splits)
next
  show "remove_pre_callback h0 cls =
       (fst (remove_callback h0 (model_pre_callbacks cls)),
        cls\<lparr>model_pre_callbacks := snd (remove_callback h0 (model_pre_callbacks cls))\<rparr>)"
    by (simp add: remove_pre_callback_def split: prod.splits)
next
  show "remove_post_callback h0 cls =
       (fst (remove_callback h0 (model_post_callbacks cls)),
        cls\<lparr>model_post_callbacks := snd (remove_callback h0 (model_post_callbacks cls))\<rparr>)"
    by (simp add: remove_post_callback_def split: prod.splits)
qed

text \<open>
  The theorem at a registry that holds the callback \<open>''a''\<close> under handle 7, with a random
  generator that draws 7 first and 9 afterwards: registering \<open>''b''\<close> skips the taken
  handle, registering \<open>''a''\<close> returns 7, and 7 can be removed once.
\<close>

theorem callback_registration_witness:
  "(\<exists>h. add_callback (\<lambda>n. if n = 0 then 7 else 9) 0 ''a'' [(7, ''a'')] = Some (Inr h, [(7, ''a'')], 0)
        \<and> (h, ''a'') \<in> set [(7, ''a'')])
   \<and> (\<exists>h i'. add_callback (\<lambda>n. if n = 0 then 7 else 9) 0 ''b'' [(7, ''a'')]
          = Some (Inr h, [(7, ''a''), (h, ''b'')], i') \<and> h \<noteq> 7)
   \<and> remove_callback 7 [(7, ''a'')] = (True, [])
   \<and> remove_callback 9 [(7, ''a'')] = (False, [(7, ''a'')])
   \<and> fst (remove_callback 7 (snd (remove_callback 7 [(7, ''a'')]))) = False"
  using callback_registration_idempotent_removal_exact
    [of "''a''" "[(7, ''a'')]" "\<lambda>n. if n = 0 then 7 else 9" 0 1 _ _ _ _ _ 7]
    callback_registration_idempotent_removal_exact
    [of "''b''" "[(7, ''a'')]" "\<lambda>n. if n = 0 then 7 else 9" 0 1 _ _ _ _ _ 9]
  by (simp add: registry_values_def registry_has_key_def remove_callback_def)

section \<open>Theorems on archive unpacking\<close>

lemma is_safe_drive: "is_safe ''C:evil.txt'' = Inl (AttributeError_string ''ascii_letter'')"
  by (simp add: is_safe_def startswith_def string_getattr_def string_module_def backslash_def)

text \<open>
  Where the drive test is not reached \<^verbatim>\<open>is_safe\<close> answers as the claim describes and
  \<^verbatim>\<open>unpack\<close> extracts exactly when no member is unsafe, raising the \<^verbatim>\<open>ValueError\<close>
  with the unsafe names otherwise; where a member reaches it, the loop ends with
  \<^verbatim>\<open>AttributeError\<close>.
\<close>

lemma is_safe_off_drive_test:
  "\<not> reaches_drive_test name \<Longrightarrow> is_safe name = Inr (\<not> unsafe_name_spec name)"
  by (auto simp add: is_safe_def reaches_drive_test_def unsafe_name_spec_def)

lemma is_safe_on_drive_test:
  "reaches_drive_test name \<Longrightarrow> is_safe name = Inl (AttributeError_string ''ascii_letter'')"
  by (simp add: is_safe_def reaches_drive_test_def string_getattr_def string_module_def)

lemma collect_unsafe_off_drive_test:
  "list_all (\<lambda>name. \<not> reaches_drive_test name) names \<Longrightarrow>
   collect_unsafe names unsafe = Inr (unsafe @ filter unsafe_name_spec names)"
  by (induction names arbitrary: unsafe) (simp_all add: is_safe_off_drive_test)

lemma unpack_off_drive_test:
  assumes "list_all (\<lambda>name. \<not> reaches_drive_test name) (a_members a)"
  shows "unpack a to_path =
     (case prepare a of
        Inl e \<Rightarrow> Inl e
      | Inr _ \<Rightarrow>
          if filter unsafe_name_spec (a_members a) \<noteq> []
          then Inl (ValueError_unsafe (filter unsafe_name_spec (a_members a)))
          else Inr \<lparr>x_names = a_members a, x_to_path = to_path\<rparr>)"
  by (simp add: unpack_def safe_extractall_def collect_unsafe_off_drive_test [OF assms]
      split: sum.splits)

lemma collect_unsafe_on_drive_test:
  "\<not> list_all (\<lambda>name. \<not> reaches_drive_test name) names \<Longrightarrow>
   collect_unsafe names unsafe = Inl (AttributeError_string ''ascii_letter'')"
proof (induction names arbitrary: unsafe)
  case Nil
  then show ?case by simp
next
  case (Cons name names)
  show ?case
  proof (cases "reaches_drive_test name")
    case True
    then show ?thesis by (simp add: is_safe_on_drive_test)
  next
    case False
    with Cons show ?thesis by (simp add: is_safe_off_drive_test)
  qed
qed

text \<open>
  Claim C6 (the code departs from it).  A member name whose second character is a
  colon makes \<^verbatim>\<open>is_safe\<close> read \<^verbatim>\<open>string.ascii_letter\<close>, which does not exist:
  \<^verbatim>\<open>is_safe\<close> raises \<^verbatim>\<open>AttributeError\<close> instead of answering, and \<^verbatim>\<open>unpack\<close> ends
  with that exception instead of the \<^verbatim>\<open>ValueError\<close> that lists the unsafe names.  The
  same happens for a name such as \<open>1:notes.txt\<close>, which is not a drive name.
\<close>

theorem unpack_drive_name_attribute_error:
  "is_safe ''C:evil.txt'' = Inl (AttributeError_string ''ascii_letter'')
   \<and> unpack \<lparr>a_filename = ''pkg.zip'', a_members = [''setup.py'', ''C:evil.txt'']\<rparr> ''.''
       = Inl (AttributeError_string ''ascii_letter'')
   \<and> unpack \<lparr>a_filename = ''pkg.zip'', a_members = [''1:notes.txt'']\<rparr> ''.''
       = Inl (AttributeError_string ''ascii_letter'')"
  by (simp add: unpack_def prepare_def endswith_def safe_extractall_def is_safe_def
      startswith_def string_getattr_def string_module_def backslash_def)

section \<open>Theorems on raising an exception in another thread\<close>

lemma find_thread_found: "fst (find_thread act t) \<longleftrightarrow> t \<in> snd ` set act"
  by (induction act t rule: find_thread.induct) auto

lemma find_thread_tid: "fst (find_thread act t) \<Longrightarrow> (snd (find_thread act t), t) \<in> set act"
  by (induction act t rule: find_thread.induct) (auto split: if_splits)

lemma wait_while_alive_returns:
  "\<not> is_alive j \<Longrightarrow> j = n + k \<Longrightarrow> \<exists>m. wait_while_alive wait is_alive n = Some m"
proof (induction k arbitrary: n)
  case 0
  then show ?case by (subst wait_while_alive.simps) simp
next
  case (Suc k)
  from Suc.prems have "j = Suc n + k" by simp
  from Suc.IH [OF Suc.prems(1) this] obtain m where
    "wait_while_alive wait is_alive (Suc n) = Some m" by (elim exE)
  then show ?case by (subst wait_while_alive.simps) auto
qed

lemma wait_while_alive_no_wait: "wait_while_alive False is_alive n = Some n"
  by (subst wait_while_alive.simps) simp

lemma lowlevel_not_found:
  "thread_obj \<notin> snd ` set (active env) \<Longrightarrow> lowlevel_async_raise env thread_obj exception = (False, [])"
  using find_thread_found [of "active env" thread_obj]
  by (simp add: lowlevel_async_raise_def case_prod_beta)

lemma lowlevel_found:
  assumes "thread_obj \<in> snd ` set (active env)"
  shows "lowlevel_async_raise env thread_obj exception =
     (let tid = snd (find_thread (active env) thread_obj);
          e = (if \<not> exc_truthy exception then Instance SystemExit True
               else (case exception of None \<Rightarrow> Instance SystemExit True | Some e \<Rightarrow> e));
          ret = (case PyThreadState_SetAsyncExc env tid (Exc e) of Inl _ \<Rightarrow> 0 | Inr n \<Rightarrow> n)
      in if ret = 0 then (False, [(tid, Exc e)])
         else if ret > 1 then (False, [(tid, Exc e), (tid, NULL)])
         else (True, [(tid, Exc e)]))"
  using assms find_thread_found [of "active env" thread_obj]
  by (simp add: lowlevel_async_raise_def case_prod_beta Let_def)

text \<open>
  What holds of the flag the function returns: False without a call when the thread
  object is not active; otherwise one call for the ident of that thread object,
  followed by a call with \<^verbatim>\<open>NULL\<close> exactly when the count is above one; True exactly
  when the count is not zero and not above one.  \<^verbatim>\<open>kill_thread\<close> returns False
  exactly when \<^verbatim>\<open>_lowlevel_async_raise\<close> does.
\<close>

lemma async_raise_flag:
  "fst (lowlevel_async_raise env thread_obj (Some e)) \<longleftrightarrow>
     thread_obj \<in> snd ` set (active env) \<and> exc_truthy (Some e)
     \<and> (\<exists>n. PyThreadState_SetAsyncExc env (snd (find_thread (active env) thread_obj)) (Exc e) = Inr n
            \<and> n \<noteq> 0 \<and> n \<le> 1)
     \<or> thread_obj \<in> snd ` set (active env) \<and> \<not> exc_truthy (Some e)
     \<and> (\<exists>n. PyThreadState_SetAsyncExc env (snd (find_thread (active env) thread_obj))
              (Exc (Instance SystemExit True)) = Inr n \<and> n \<noteq> 0 \<and> n \<le> 1)"
proof (cases "thread_obj \<in> snd ` set (active env)")
  case True
  show ?thesis
  proof (cases "exc_truthy (Some e)")
    case t: True
    show ?thesis
      by (cases "PyThreadState_SetAsyncExc env (snd (find_thread (active env) thread_obj)) (Exc e)")
        (use True t in \<open>auto simp add: lowlevel_found [OF True] Let_def\<close>)
  next
    case f: False
    show ?thesis
      by (cases "PyThreadState_SetAsyncExc env (snd (find_thread (active env) thread_obj))
                   (Exc (Instance SystemExit True))")
        (use True f in \<open>auto simp add: lowlevel_found [OF True] Let_def\<close>)
  qed
next
  case False
  then show ?thesis by (simp add: lowlevel_not_found)
qed

lemma async_raise_cleanup:
  assumes "thread_obj \<in> snd ` set (active env)" "exc_truthy (Some e)"
    and "PyThreadState_SetAsyncExc env (snd (find_thread (active env) thread_obj)) (Exc e) = Inr n"
    and "n > 1"
  shows "lowlevel_async_raise env thread_obj (Some e)
     = (False, [(snd (find_thread (active env) thread_obj), Exc e),
                (snd (find_thread (active env) thread_obj), NULL)])"
  using assms by (simp add: lowlevel_found [OF assms(1)] Let_def)

lemma kill_thread_false:
  "(\<exists>calls. kill_thread env thread_obj wait is_alive = Some (False, calls)) \<longleftrightarrow>
     \<not> fst (lowlevel_async_raise env thread_obj (Some (Instance SystemExit True)))"
  by (auto simp add: kill_thread_def case_prod_beta split: option.splits if_splits)

lemma kill_thread_true:
  assumes "fst (lowlevel_async_raise env thread_obj (Some (Instance SystemExit True)))"
    and "\<not> wait \<or> \<not> is_alive k"
  shows "kill_thread env thread_obj wait is_alive
          = Some (True, snd (lowlevel_async_raise env thread_obj (Some (Instance SystemExit True))))"
proof -
  have "\<exists>m. wait_while_alive wait is_alive 0 = Some m"
  proof (cases wait)
    case True
    with assms(2) have "\<not> is_alive k" by simp
    then show ?thesis by (rule wait_while_alive_returns) simp
  next
    case False
    then show ?thesis by (simp add: wait_while_alive_no_wait)
  qed
  with assms(1) show ?thesis
    by (auto simp add: kill_thread_def case_prod_beta)
qed

text \<open>
  Claim C5 (the code departs from it).  With no exception given, and in
  \<^verbatim>\<open>kill_thread\<close>, the object handed to \<^verbatim>\<open>PyThreadState_SetAsyncExc\<close> is the instance
  \<^verbatim>\<open>SystemExit()\<close>, not the class: the call is made for the ident of the thread and
  the function returns True, but what the target thread gets raised is
  \<^verbatim>\<open>SystemError\<close>, where the class would have raised \<^verbatim>\<open>SystemExit\<close>.
\<close>

theorem async_raise_passes_instance:
  "lowlevel_async_raise two_threads 2 None = (True, [(12, Exc (Instance SystemExit True))])
   \<and> kill_thread two_threads 2 False (\<lambda>n. True) = Some (True, [(12, Exc (Instance SystemExit True))])
   \<and> raised_in_target (Instance SystemExit True) = SystemError
   \<and> raised_in_target (Class SystemExit) = SystemExit"
  by (simp add: lowlevel_async_raise_def kill_thread_def two_threads_def exc_truthy_def
      raised_in_target_def wait_while_alive_no_wait)

section \<open>Theorems on the recursion guard\<close>

lemma patched_call_nested:
  "ident \<in> dom (recursion_guard w) \<Longrightarrow>
   patched_call original_fn patched_fn ident args w = original_fn ident args w"
  by (simp add: patched_call_def)

lemma patched_call_outer:
  assumes "ident \<notin> dom (recursion_guard w)"
  shows "patched_call original_fn patched_fn ident args w =
     (case patched_fn original_fn ident args (w\<lparr>recursion_guard := (recursion_guard w)(ident \<mapsto> 1)\<rparr>) of
        (ret, w2) \<Rightarrow> (ret, w2\<lparr>recursion_guard := (recursion_guard w2)(ident := None)\<rparr>))"
  using assms by (simp add: patched_call_def)

lemma patched_call_keeps:
  assumes o: "keeps_other_threads original_fn"
    and p: "\<forall>f. keeps_other_threads f \<longrightarrow> keeps_other_threads (patched_fn f)"
  shows "keeps_other_threads (patched_call original_fn patched_fn)"
proof -
  from o p have pk: "keeps_other_threads (patched_fn original_fn)" by blast
  show ?thesis
    unfolding keeps_other_threads_def
  proof (intro allI impI)
    fix ident args w t
    assume t: "(t::nat) \<noteq> ident"
    show "recursion_guard (snd (patched_call original_fn patched_fn ident args w)) t = recursion_guard w t"
    proof (cases "ident \<in> dom (recursion_guard w)")
      case True
      with o t show ?thesis by (simp add: patched_call_def keeps_other_threads_def)
    next
      case False
      let ?w1 = "w\<lparr>recursion_guard := (recursion_guard w)(ident \<mapsto> 1)\<rparr>"
      from pk t have "recursion_guard (snd (patched_fn original_fn ident args ?w1)) t = recursion_guard ?w1 t"
        unfolding keeps_other_threads_def by blast
      with False t show ?thesis
        by (simp add: patched_call_def case_prod_beta Let_def)
    qed
  qed
qed

text \<open>
  Claim C1.  A call of a wrapped function on a thread whose ident is in
  \<^verbatim>\<open>_recursion_guard\<close> is the call of the original function: the patched callback is
  not run.  A call on a thread whose ident is not in the guard returns or raises what
  the patched callback returns or raises, run with the ident in the guard, and leaves
  the ident out of the guard in either case; the wrapper itself changes no entry of
  another thread.  In particular a wrapped function called by the patched callback of
  another wrapped function on the same thread runs its original only.  When the
  original and the callback leave the entries of other threads alone, so does the
  wrapped function.
\<close>

theorem patched_call_recursion_guard:
  "(ident \<in> dom (recursion_guard w) \<longrightarrow>
      patched_call original_fn patched_fn ident args w = original_fn ident args w)
   \<and> (ident \<notin> dom (recursion_guard w) \<longrightarrow>
        fst (patched_call original_fn patched_fn ident args w)
          = fst (patched_fn original_fn ident args
                  (w\<lparr>recursion_guard := (recursion_guard w)(ident \<mapsto> 1)\<rparr>))
        \<and> ident \<notin> dom (recursion_guard (snd (patched_call original_fn patched_fn ident args w)))
        \<and> (\<forall>t. t \<noteq> ident \<longrightarrow>
              recursion_guard (snd (patched_call original_fn patched_fn ident args w)) t
                = recursion_guard (snd (patched_fn original_fn ident args
                    (w\<lparr>recursion_guard := (recursion_guard w)(ident \<mapsto> 1)\<rparr>))) t)
        \<and> patched_call original_fn (\<lambda>orig. patched_call inner_original inner_patched) ident args w
            = (case inner_original ident args (w\<lparr>recursion_guard := (recursion_guard w)(ident \<mapsto> 1)\<rparr>) of
                 (ret, w2) \<Rightarrow> (ret, w2\<lparr>recursion_guard := (recursion_guard w2)(ident := None)\<rparr>)))
   \<and> (keeps_other_threads original_fn
        \<and> (\<forall>f. keeps_other_threads f \<longrightarrow> keeps_other_threads (patched_fn f)) \<longrightarrow>
        keeps_other_threads (patched_call original_fn patched_fn))"
proof (intro conjI impI allI)
  assume "ident \<in> dom (recursion_guard w)"
  then show "patched_call original_fn patched_fn ident args w = original_fn ident args w"
    by (rule patched_call_nested)
next
  assume a: "ident \<notin> dom (recursion_guard w)"
  show "fst (patched_call original_fn patched_fn ident args w)
          = fst (patched_fn original_fn ident args
                  (w\<lparr>recursion_guard := (recursion_guard w)(ident \<mapsto> 1)\<rparr>))"
    by (simp add: patched_call_outer [OF a] case_prod_beta)
  show "ident \<notin> dom (recursion_guard (snd (patched_call original_fn patched_fn ident args w)))"
    by (simp add: patched_call_outer [OF a] case_prod_beta)
  show "patched_call original_fn (\<lambda>orig. patched_call inner_original inner_patched) ident args w
            = (case inner_original ident args (w\<lparr>recursion_guard := (recursion_guard w)(ident \<mapsto> 1)\<rparr>) of
                 (ret, w2) \<Rightarrow> (ret, w2\<lparr>recursion_guard := (recursion_guard w2)(ident := None)\<rparr>))"
    by (simp add: patched_call_outer [OF a] patched_call_nested)
next
  fix t
  assume a: "ident \<notin> dom (recursion_guard w)" and "t \<noteq> ident"
  then show "recursion_guard (snd (patched_call original_fn patched_fn ident args w)) t
                = recursion_guard (snd (patched_fn original_fn ident args
                    (w\<lparr>recursion_guard := (recursion_guard w)(ident \<mapsto> 1)\<rparr>))) t"
    by (simp add: patched_call_outer [OF a] case_prod_beta)
next
  assume "keeps_other_threads original_fn
        \<and> (\<forall>f. keeps_other_threads f \<longrightarrow> keeps_other_threads (patched_fn f))"
  then show "keeps_other_threads (patched_call original_fn patched_fn)"
    using patched_call_keeps by blast
qed

text \<open>
  The theorem at a callback that raises, on thread 7 while thread 8 is inside a wrapped
  call: the exception comes out, the entry of thread 7 is gone, the entry of thread 8
  stands, and a call on thread 8 runs the original.
\<close>

theorem patched_call_witness:
  "fst (patched_call (\<lambda>ident args w. (Inr args, w)) (\<lambda>orig ident args w. (Inl ''boom'', w))
          (7::nat) (3::nat) \<lparr>recursion_guard = [8 \<mapsto> 1]\<rparr>) = (Inl ''boom'' :: string + nat)
   \<and> recursion_guard (snd (patched_call (\<lambda>ident args w. (Inr args, w)) (\<lambda>orig ident args w. (Inl ''boom'', w))
          (7::nat) (3::nat) \<lparr>recursion_guard = [8 \<mapsto> 1]\<rparr>)) 7 = None
   \<and> recursion_guard (snd (patched_call (\<lambda>ident args w. (Inr args, w)) (\<lambda>orig ident args w. (Inl ''boom'', w))
          (7::nat) (3::nat) \<lparr>recursion_guard = [8 \<mapsto> 1]\<rparr>)) 8 = Some 1
   \<and> patched_call (\<lambda>ident args w. (Inr args, w)) (\<lambda>orig ident args w. (Inl ''boom'', w))
          (8::nat) (3::nat) \<lparr>recursion_guard = [8 \<mapsto> 1]\<rparr>
       = (Inr 3 :: string + nat, \<lparr>recursion_guard = [8 \<mapsto> 1]\<rparr>)"
proof -
  let ?o = "(\<lambda>ident args w. (Inr args, w)) :: (nat, nat, string, unit) callable"
  let ?p = "(\<lambda>orig ident args w. (Inl ''boom'', w)) :: (nat, nat, string, unit) callable \<Rightarrow> (nat, nat, string, unit) callable"
  let ?w = "\<lparr>recursion_guard = [8 \<mapsto> 1]\<rparr>"
  note t7 = patched_call_recursion_guard [where ident = 7 and w = ?w and original_fn = ?o
      and patched_fn = ?p and args = 3]
  note t8 = patched_call_recursion_guard [where ident = 8 and w = ?w and original_fn = ?o
      and patched_fn = ?p and args = 3]
  have n7: "7 \<notin> dom (recursion_guard ?w)" by simp
  have i8: "8 \<in> dom (recursion_guard ?w)" by simp
  from t7 [THEN conjunct2, THEN conjunct1] n7
  have a: "fst (patched_call ?o ?p 7 3 ?w) = fst (?p ?o 7 3 (?w\<lparr>recursion_guard := (recursion_guard ?w)(7 \<mapsto> 1)\<rparr>))"
    and b: "7 \<notin> dom (recursion_guard (snd (patched_call ?o ?p 7 3 ?w)))"
    and c: "\<forall>t. t \<noteq> 7 \<longrightarrow> recursion_guard (snd (patched_call ?o ?p 7 3 ?w)) t
                = recursion_guard (snd (?p ?o 7 3 (?w\<lparr>recursion_guard := (recursion_guard ?w)(7 \<mapsto> 1)\<rparr>))) t"
    by blast+
  from t8 [THEN conjunct1] i8 have d: "patched_call ?o ?p 8 3 ?w = ?o 8 3 ?w" by (rule mp)
  from a have 1: "fst (patched_call ?o ?p 7 3 ?w) = Inl ''boom''" by simp
  from b have 2: "recursion_guard (snd (patched_call ?o ?p 7 3 ?w)) 7 = None" by (simp add: domIff)
  from c have "recursion_guard (snd (patched_call ?o ?p 7 3 ?w)) 8
                = recursion_guard (snd (?p ?o 7 3 (?w\<lparr>recursion_guard := (recursion_guard ?w)(7 \<mapsto> 1)\<rparr>))) 8"
    by simp
  then have 3: "recursion_guard (snd (patched_call ?o ?p 7 3 ?w)) 8 = Some 1" by simp
  from d have 4: "patched_call ?o ?p 8 3 ?w = (Inr 3, ?w)" by simp
  from 1 2 3 4 show ?thesis by (intro conjI)
qed

section \<open>Theorems on the hyper-parameters of a task\<close>





















lemma edit_online:
  assumes "check_min_api_version (api_version env) (2, 9)" "\<not> is_offline tsk"
  shows "edit_hyper_params env tsk iterables replace dflt force =
     (case make_props (\<not> check_min_api_version (api_version env) (2, 11)) force dflt iterables of
        Inl e \<Rightarrow> (Inl e, [])
      | Inr props \<Rightarrow>
          (case send env (EditHyperParamsRequest (task_id tsk) (map snd props)
                   (if replace_has_value replace then replace else None)) of
             Inl e \<Rightarrow> (Inl e, [Sent (EditHyperParamsRequest (task_id tsk) (map snd props)
                   (if replace_has_value replace then replace else None))])
           | Inr res \<Rightarrow> (Inr (r_ok res),
                Sent (EditHyperParamsRequest (task_id tsk) (map snd props)
                   (if replace_has_value replace then replace else None))
                # (if r_ok res then [Reloaded] else []))))"
  using assms
  by (simp add: edit_hyper_params_def Let_def split: sum.splits)

lemma delete_supported:
  assumes "check_min_api_version (api_version env) (2, 9)"
  shows "delete_hyper_params env tsk iterables =
     (case get_keys (concat iterables) of
        Inl e \<Rightarrow> (Inl e, [])
      | Inr keys \<Rightarrow>
         (case param_keys keys of
            Inl e \<Rightarrow> (Inl e, [])
          | Inr ks \<Rightarrow>
             (case send env (DeleteHyperParamsRequest (task_id tsk) (set ks)) of
                Inl e \<Rightarrow> (Inl e, [Sent (DeleteHyperParamsRequest (task_id tsk) (set ks))])
              | Inr res \<Rightarrow> (Inr (r_ok res),
                  Sent (DeleteHyperParamsRequest (task_id tsk) (set ks))
                  # (if r_ok res then [Reloaded] else [])))))"
  using assms
  by (simp add: delete_hyper_params_def split: sum.splits)

text \<open>
  Claim C8.  Below API version 2.9 each of the three operations raises
  \<^verbatim>\<open>ValueError\<close> and sends nothing.  From 2.9 on, for a task that is not offline,
  \<^verbatim>\<open>edit_hyper_params\<close> returns True exactly when the request was sent and the
  response is ok, returns False exactly when the request was sent and the response
  is not ok, and reloads the task exactly when it returns True; the same holds for
  \<^verbatim>\<open>delete_hyper_params\<close>, which does not look at the offline flag.  (The request is
  not sent when an entry has no name or no section: the \<^verbatim>\<open>ValueError\<close> of
  \<^verbatim>\<open>make_item\<close> or \<^verbatim>\<open>get_key\<close> comes out instead.)
\<close>

theorem hyper_params_gate_and_report:
  "(\<not> check_min_api_version (api_version env) (2, 9) \<longrightarrow>
      get_hyper_params env object_get tsk sections selector projector return_obj = (Inl ValueError, [])
      \<and> edit_hyper_params env tsk iterables replace dflt force = (Inl ValueError, [])
      \<and> delete_hyper_params env tsk key_iterables = (Inl ValueError, []))
   \<and> (check_min_api_version (api_version env) (2, 9) \<and> \<not> is_offline tsk \<longrightarrow>
        (fst (edit_hyper_params env tsk iterables replace dflt force) = Inr True \<longleftrightarrow>
           (\<exists>props res.
              make_props (\<not> check_min_api_version (api_version env) (2, 11)) force dflt iterables = Inr props
              \<and> send env (EditHyperParamsRequest (task_id tsk) (map snd props)
                   (if replace_has_value replace then replace else None)) = Inr res
              \<and> r_ok res))
        \<and> (fst (edit_hyper_params env tsk iterables replace dflt force) = Inr False \<longleftrightarrow>
           (\<exists>props res.
              make_props (\<not> check_min_api_version (api_version env) (2, 11)) force dflt iterables = Inr props
              \<and> send env (EditHyperParamsRequest (task_id tsk) (map snd props)
                   (if replace_has_value replace then replace else None)) = Inr res
              \<and> \<not> r_ok res))
        \<and> (Reloaded \<in> set (snd (edit_hyper_params env tsk iterables replace dflt force)) \<longleftrightarrow>
             fst (edit_hyper_params env tsk iterables replace dflt force) = Inr True))
   \<and> (check_min_api_version (api_version env) (2, 9) \<longrightarrow>
        (fst (delete_hyper_params env tsk key_iterables) = Inr True \<longleftrightarrow>
           (\<exists>keys ks res. get_keys (concat key_iterables) = Inr keys \<and> param_keys keys = Inr ks
              \<and> send env (DeleteHyperParamsRequest (task_id tsk) (set ks)) = Inr res \<and> r_ok res))
        \<and> (fst (delete_hyper_params env tsk key_iterables) = Inr False \<longleftrightarrow>
           (\<exists>keys ks res. get_keys (concat key_iterables) = Inr keys \<and> param_keys keys = Inr ks
              \<and> send env (DeleteHyperParamsRequest (task_id tsk) (set ks)) = Inr res \<and> \<not> r_ok res))
        \<and> (Reloaded \<in> set (snd (delete_hyper_params env tsk key_iterables)) \<longleftrightarrow>
             fst (delete_hyper_params env tsk key_iterables) = Inr True))"
proof (intro conjI impI)
  assume "\<not> check_min_api_version (api_version env) (2, 9)"
  then show "get_hyper_params env object_get tsk sections selector projector return_obj = (Inl ValueError, [])"
    and "edit_hyper_params env tsk iterables replace dflt force = (Inl ValueError, [])"
    and "delete_hyper_params env tsk key_iterables = (Inl ValueError, [])"
    by (simp_all add: get_hyper_params_def edit_hyper_params_def delete_hyper_params_def)
next
  assume a: "check_min_api_version (api_version env) (2, 9) \<and> \<not> is_offline tsk"
  then have e: "edit_hyper_params env tsk iterables replace dflt force =
     (case make_props (\<not> check_min_api_version (api_version env) (2, 11)) force dflt iterables of
        Inl e \<Rightarrow> (Inl e, [])
      | Inr props \<Rightarrow>
          (case send env (EditHyperParamsRequest (task_id tsk) (map snd props)
                   (if replace_has_value replace then replace else None)) of
             Inl e \<Rightarrow> (Inl e, [Sent (EditHyperParamsRequest (task_id tsk) (map snd props)
                   (if replace_has_value replace then replace else None))])
           | Inr res \<Rightarrow> (Inr (r_ok res),
                Sent (EditHyperParamsRequest (task_id tsk) (map snd props)
                   (if replace_has_value replace then replace else None))
                # (if r_ok res then [Reloaded] else []))))"
    by (simp add: edit_online)
  show "fst (edit_hyper_params env tsk iterables replace dflt force) = Inr True \<longleftrightarrow>
           (\<exists>props res.
              make_props (\<not> check_min_api_version (api_version env) (2, 11)) force dflt iterables = Inr props
              \<and> send env (EditHyperParamsRequest (task_id tsk) (map snd props)
                   (if replace_has_value replace then replace else None)) = Inr res
              \<and> r_ok res)"
    unfolding e by (auto split: sum.splits)
  show "fst (edit_hyper_params env tsk iterables replace dflt force) = Inr False \<longleftrightarrow>
           (\<exists>props res.
              make_props (\<not> check_min_api_version (api_version env) (2, 11)) force dflt iterables = Inr props
              \<and> send env (EditHyperParamsRequest (task_id tsk) (map snd props)
                   (if replace_has_value replace then replace else None)) = Inr res
              \<and> \<not> r_ok res)"
    unfolding e by (auto split: sum.splits)
  show "Reloaded \<in> set (snd (edit_hyper_params env tsk iterables replace dflt force)) \<longleftrightarrow>
             fst (edit_hyper_params env tsk iterables replace dflt force) = Inr True"
    unfolding e by (auto split: sum.splits)
next
  assume a: "check_min_api_version (api_version env) (2, 9)"
  note d = delete_supported [OF a, of tsk key_iterables]
  show "fst (delete_hyper_params env tsk key_iterables) = Inr True \<longleftrightarrow>
           (\<exists>keys ks res. get_keys (concat key_iterables) = Inr keys \<and> param_keys keys = Inr ks
              \<and> send env (DeleteHyperParamsRequest (task_id tsk) (set ks)) = Inr res \<and> r_ok res)"
    unfolding d by (auto split: sum.splits)
  show "fst (delete_hyper_params env tsk key_iterables) = Inr False \<longleftrightarrow>
           (\<exists>keys ks res. get_keys (concat key_iterables) = Inr keys \<and> param_keys keys = Inr ks
              \<and> send env (DeleteHyperParamsRequest (task_id tsk) (set ks)) = Inr res \<and> \<not> r_ok res)"
    unfolding d by (auto split: sum.splits)
  show "Reloaded \<in> set (snd (delete_hyper_params env tsk key_iterables)) \<longleftrightarrow>
             fst (delete_hyper_params env tsk key_iterables) = Inr True"
    unfolding d by (auto split: sum.splits)
qed

text \<open>
  The theorem at a server of version 2.8 (both operations raise), at a server of
  version 2.13 that answers ok (edit returns True) and at one that answers not ok
  (delete returns False).
\<close>

theorem hyper_params_gate_witness:
  "edit_hyper_params \<lparr>api_version = (2, 8), send = (\<lambda>r. Inr \<lparr>r_ok = True, r_params = []\<rparr>)\<rparr>
      \<lparr>task_id = ''t1'', is_offline = False, data_hyperparams = None\<rparr>
      (DictInput [(''lr'', VDict [(''section'', Some ''Args''), (''value'', Some ''1'')])]) None None None
     = (Inl ValueError, [])
   \<and> delete_hyper_params \<lparr>api_version = (2, 8), send = (\<lambda>r. Inr \<lparr>r_ok = True, r_params = []\<rparr>)\<rparr>
      \<lparr>task_id = ''t1'', is_offline = False, data_hyperparams = None\<rparr> [[KIter [''Args'', ''lr'']]]
     = (Inl ValueError, [])
   \<and> fst (edit_hyper_params \<lparr>api_version = (2, 13), send = (\<lambda>r. Inr \<lparr>r_ok = True, r_params = []\<rparr>)\<rparr>
      \<lparr>task_id = ''t1'', is_offline = False, data_hyperparams = None\<rparr>
      (DictInput [(''lr'', VDict [(''section'', Some ''Args''), (''value'', Some ''1'')])]) None None None)
     = Inr True
   \<and> fst (delete_hyper_params \<lparr>api_version = (2, 13), send = (\<lambda>r. Inr \<lparr>r_ok = False, r_params = []\<rparr>)\<rparr>
      \<lparr>task_id = ''t1'', is_offline = False, data_hyperparams = None\<rparr> [[KIter [''Args'', ''lr'']]])
     = Inr False"
proof -
  let ?old = "\<lparr>api_version = (2, 8), send = (\<lambda>r. Inr \<lparr>r_ok = True, r_params = []\<rparr>)\<rparr>"
  let ?ok = "\<lparr>api_version = (2, 13), send = (\<lambda>r. Inr \<lparr>r_ok = True, r_params = []\<rparr>)\<rparr>"
  let ?no = "\<lparr>api_version = (2, 13), send = (\<lambda>r. Inr \<lparr>r_ok = False, r_params = []\<rparr>)\<rparr>"
  let ?tsk = "\<lparr>task_id = ''t1'', is_offline = False, data_hyperparams = None\<rparr>"
  let ?inp = "DictInput [(''lr'', VDict [(''section'', Some ''Args''), (''value'', Some ''1'')])]"
  let ?keys = "[[KIter [''Args'', ''lr'']]]"
  have old: "\<not> check_min_api_version (api_version ?old) (2, 9)"
    by (simp add: check_min_api_version_def)
  note g = hyper_params_gate_and_report [where env = ?old and tsk = ?tsk and iterables = ?inp
      and replace = None and dflt = None and force = None and key_iterables = ?keys,
      THEN conjunct1, THEN mp, OF old, THEN conjunct2]
  from g [THEN conjunct1]
  have 1: "edit_hyper_params ?old ?tsk ?inp None None None = (Inl ValueError, [])" .
  from g [THEN conjunct2]
  have 2: "delete_hyper_params ?old ?tsk ?keys = (Inl ValueError, [])" .
  have new: "check_min_api_version (api_version ?ok) (2, 9) \<and> \<not> is_offline ?tsk"
    by (simp add: check_min_api_version_def)
  have props: "\<exists>props res.
      make_props (\<not> check_min_api_version (api_version ?ok) (2, 11)) None None ?inp = Inr props
      \<and> send ?ok (EditHyperParamsRequest (task_id ?tsk) (map snd props)
                   (if replace_has_value None then None else None)) = Inr res
      \<and> r_ok res"
    by (simp add: make_props_def make_item_def build_item_def item_of_dict_def dict_get_def
        truthy_def py_or_def Let_def check_min_api_version_def)
  from hyper_params_gate_and_report [where env = ?ok and tsk = ?tsk and iterables = ?inp
      and replace = None and dflt = None and force = None,
      THEN conjunct2, THEN conjunct1, THEN mp, OF new, THEN conjunct1, THEN iffD2, OF props]
  have 3: "fst (edit_hyper_params ?ok ?tsk ?inp None None None) = Inr True" .
  have new': "check_min_api_version (api_version ?no) (2, 9)"
    by (simp add: check_min_api_version_def)
  have keys: "\<exists>keys ks res. get_keys (concat ?keys) = Inr keys \<and> param_keys keys = Inr ks
      \<and> send ?no (DeleteHyperParamsRequest (task_id ?tsk) (set ks)) = Inr res \<and> \<not> r_ok res"
    by (simp add: get_key_def truthy_def)
  from hyper_params_gate_and_report [where env = ?no and tsk = ?tsk and key_iterables = ?keys,
      THEN conjunct2, THEN conjunct2, THEN mp, OF new', THEN conjunct2, THEN conjunct1, THEN iffD2, OF keys]
  have 4: "fst (delete_hyper_params ?no ?tsk ?keys) = Inr False" .
  from 1 2 3 4 show ?thesis by (intro conjI)
qed

section \<open>Theorems on the interception of save and load calls\<close>

text \<open>
  What the two functions and the patched save return.  \<^verbatim>\<open>create_output_model\<close>
  returns \<^verbatim>\<open>saved_path\<close> on every path, and the patched save returns or raises what
  the original does.  \<^verbatim>\<open>restore_weights_file\<close> returns \<^verbatim>\<open>filepath\<close> unless
  \<^verbatim>\<open>os.path.abspath\<close> raises an exception other than \<^verbatim>\<open>TypeError\<close>, which comes out
  of the function.
\<close>

lemma restore_result:
  "fst (restore_weights_file cls env model filepath frmwork tsk w) =
     (case tsk of
        None \<Rightarrow> Inr filepath
      | Some t \<Rightarrow>
          (case (if val_truthy filepath then py_abspath env filepath else Inr filepath) of
             Inl e \<Rightarrow> if e = TypeError then Inr filepath else Inl e
           | Inr lmp \<Rightarrow> Inr filepath))"
  by (simp add: restore_weights_file_def case_prod_beta split: option.splits sum.splits)

lemma create_returns_saved_path:
  "fst (create_output_model cls env model saved_path frmwork tsk singlefile model_name config w)
     = Inr saved_path"
  by (cases tsk) (simp_all add: create_output_model_def case_prod_beta)

lemma catboost_save_result:
  "fst (catboost_save cls env current_task original_fn ob f args w) = fst (original_fn ob f args w)"
proof (cases "original_fn ob f args w")
  case (Pair r w1)
  show ?thesis
  proof (cases r)
    case (Inl e)
    with Pair show ?thesis by (simp add: catboost_save_def)
  next
    case (Inr ret)
    show ?thesis
    proof (cases current_task)
      case None
      with Pair Inr show ?thesis by (simp add: catboost_save_def)
    next
      case (Some t)
      let ?c = "create_output_model cls env (Some ob) (case f of PStr s \<Rightarrow> PStr s | _ \<Rightarrow> PNone)
          (Some ''CatBoost'') (Some t) True
          (case py_path (case f of PStr s \<Rightarrow> PStr s | _ \<Rightarrow> PNone) of Inl _ \<Rightarrow> None
           | Inr p \<Rightarrow> Some (path_stem env p)) Config_none w1"
      have "fst ?c = Inr (case f of PStr s \<Rightarrow> PStr s | _ \<Rightarrow> PNone)"
        by (rule create_returns_saved_path)
      then obtain w2 where "?c = (Inr (case f of PStr s \<Rightarrow> PStr s | _ \<Rightarrow> PNone), w2)"
        by (cases ?c) simp
      with Pair Inr Some show ?thesis by (simp add: catboost_save_def Let_def)
    qed
  qed
qed

lemmas example_defs = example_registry_def example_task_def example_model_def empty_state_def
  alias_callback_def registry_values_def val_truthy_def val_or_def py_abspath_def py_path_def
  acquire_def release_def cache_get_def cache_set_def model_config_def truthy_def
  no_cwd_registry_def raising_task_def swap_callback_def no_callbacks_def

text \<open>
  Claim C2 (the code departs from it).  \<^verbatim>\<open>restore_weights_file\<close> calls
  \<^verbatim>\<open>os.path.abspath\<close> before its \<^verbatim>\<open>try\<close> statement and catches \<^verbatim>\<open>TypeError\<close> only: for
  a relative path in a process whose working directory has been removed it raises
  \<^verbatim>\<open>FileNotFoundError\<close> instead of returning \<^verbatim>\<open>filepath\<close>, before the lock is
  touched.  \<^verbatim>\<open>create_output_model\<close> makes the same call inside its \<^verbatim>\<open>try\<close>
  statement and returns \<^verbatim>\<open>saved_path\<close> for the same path.
\<close>

theorem restore_raises_without_working_directory:
  "fst (restore_weights_file no_callbacks no_cwd_registry None (PStr ''model.cbm'') None
          (Some example_task) empty_state) = Inl FileNotFoundError
   \<and> snd (restore_weights_file no_callbacks no_cwd_registry None (PStr ''model.cbm'') None
          (Some example_task) empty_state) = empty_state
   \<and> fst (create_output_model no_callbacks no_cwd_registry None (PStr ''model.cbm'') None
          (Some example_task) True None Config_none empty_state) = Inr (PStr ''model.cbm'')"
  by (simp add: restore_weights_file_def create_output_model_def create_body_def example_defs)

lemma find_or_import_state:
  "snd (find_or_import_model env tsk frmwork model config mi w) =
     w\<lparr>events := events w @ [Cache_read (val_or (local_model_id mi) (local_model_path mi))]\<rparr>"
  by (simp add: find_or_import_model_def cache_get_def Let_def split: option.splits sum.splits)

lemma make_output_model_state:
  "snd (make_output_model env tsk frmwork model_name config mi w) =
     w\<lparr>events := events w @ [Cache_read (val_or (local_model_id mi) (local_model_path mi))]\<rparr>"
  by (simp add: make_output_model_def cache_get_def Let_def split: option.splits sum.splits)

lemma body_step_refl: "body_step w w"
  by (simp add: body_step_def)

lemma body_step_read: "body_step w (w\<lparr>events := events w @ [Cache_read k]\<rparr>)"
  by (simp add: body_step_def)

lemma body_step_write: "body_step w w1 \<Longrightarrow> body_step w (cache_set k v w1)"
  by (auto simp add: body_step_def cache_set_def)

lemma resolve_in_model_step:
  "body_step w (snd (resolve_in_model env tsk frmwork model mi w))"
  by (cases "mi_model mi")
    (simp_all add: resolve_in_model_def body_step_refl find_or_import_state body_step_read)

lemma resolve_out_model_step:
  "body_step w (snd (resolve_out_model env tsk frmwork model_name config mi w))"
  by (cases "mi_model mi")
    (simp_all add: resolve_out_model_def body_step_refl make_output_model_state body_step_read)

lemma restore_body_step:
  "body_step w (snd (restore_body env post tsk frmwork model mi w))"
proof -
  obtain r w1 where r: "resolve_in_model env tsk frmwork model mi w = (r, w1)"
    by (cases "resolve_in_model env tsk frmwork model mi w")
  with resolve_in_model_step [of w env tsk frmwork model mi] have w1: "body_step w w1" by simp
  show ?thesis
    unfolding restore_body_def r
    using w1 by (auto simp add: body_step_write split: sum.splits option.splits)
qed

lemma finish_output_model_step:
  "body_step w w1 \<Longrightarrow>
   body_step w (snd (finish_output_model env post model files mi3 trains_out_model w1))"
  by (auto simp add: finish_output_model_def Let_def body_step_write split: sum.splits option.splits)

lemma create_body_step:
  "body_step w (snd (create_body env pre post tsk model saved_path frmwork singlefile model_name config w))"
proof -
  have f: "body_step w (snd (case resolve_out_model env tsk frmwork model_name config mi3 w of
                                   (Inl e, w1) \<Rightarrow> (Inl e, w1)
                                 | (Inr m, w1) \<Rightarrow>
                                     finish_output_model env post model files mi3 m w1))" for mi3 files
  proof (cases "resolve_out_model env tsk frmwork model_name config mi3 w")
    case (Pair r w1)
    with resolve_out_model_step [of w env tsk frmwork model_name config mi3]
    have "body_step w w1" by simp
    with Pair show ?thesis by (cases r) (simp_all add: finish_output_model_step)
  qed
  show ?thesis
    unfolding create_body_def Let_def
    by (auto simp add: body_step_refl f split: sum.splits option.splits)
qed

lemma discipline_bracket:
  "list_all cache_event evs \<Longrightarrow> lock_discipline True (evs @ [Release]) = Some False"
proof (induction evs)
  case Nil
  then show ?case by simp
next
  case (Cons a evs)
  then show ?case by (cases a) simp_all
qed

lemma cache_events_no_lock:
  "list_all cache_event evs \<Longrightarrow> Acquire \<notin> set evs \<and> Release \<notin> set evs
     \<and> count_list evs Acquire = 0 \<and> count_list evs Release = 0"
proof (induction evs)
  case Nil
  then show ?case by simp
next
  case (Cons a evs)
  then show ?case by (cases a) simp_all
qed

lemma call_discipline:
  assumes "w' = w \<or> (\<exists>w2. body_step (acquire w) w2 \<and> w' = release w2)"
  shows "events w' = events w @ emitted w w'
     \<and> lock_discipline False (emitted w w') = Some False
     \<and> lock_held w' = (if Acquire \<in> set (emitted w w') then False else lock_held w)
     \<and> count_list (emitted w w') Acquire = count_list (emitted w w') Release"
  using assms
proof
  assume "w' = w"
  then show ?thesis by (simp add: emitted_def)
next
  assume "\<exists>w2. body_step (acquire w) w2 \<and> w' = release w2"
  then obtain w2 evs where w2: "w' = release w2"
    and evs: "events w2 = events (acquire w) @ evs" "list_all cache_event evs"
    by (auto simp add: body_step_def)
  have em: "emitted w w' = Acquire # evs @ [Release]"
    by (simp add: emitted_def w2 release_def evs acquire_def)
  have ev: "events w' = events w @ Acquire # evs @ [Release]"
    by (simp add: w2 release_def evs acquire_def)
  from cache_events_no_lock [OF evs(2)] discipline_bracket [OF evs(2)] em ev w2
  show ?thesis by (simp add: release_def)
qed

lemma restore_state_shape:
  "snd (restore_weights_file cls env model filepath frmwork tsk w) = w
   \<or> (\<exists>w2. body_step (acquire w) w2
         \<and> snd (restore_weights_file cls env model filepath frmwork tsk w) = release w2)"
proof -
  have b: "\<And>t mi. body_step (acquire w)
      (snd (restore_body env (registry_values (model_post_callbacks cls)) t frmwork model mi (acquire w)))"
    by (rule restore_body_step)
  show ?thesis
    unfolding restore_weights_file_def
    using b by (auto simp add: case_prod_beta split: option.splits sum.splits)
qed

lemma create_state_shape:
  "snd (create_output_model cls env model saved_path frmwork tsk singlefile model_name config w) = w
   \<or> (\<exists>w2. body_step (acquire w) w2
         \<and> snd (create_output_model cls env model saved_path frmwork tsk singlefile model_name config w)
             = release w2)"
proof (cases tsk)
  case None
  then show ?thesis by (simp add: create_output_model_def)
next
  case (Some t)
  have "body_step (acquire w)
      (snd (create_body env (registry_values (model_pre_callbacks cls))
                  (registry_values (model_post_callbacks cls)) t model saved_path frmwork singlefile
                  model_name config (acquire w)))"
    by (rule create_body_step)
  with Some show ?thesis
    by (auto simp add: create_output_model_def case_prod_beta)
qed

text \<open>
  Claim C4.  The log a call of \<^verbatim>\<open>restore_weights_file\<close> or of
  \<^verbatim>\<open>create_output_model\<close> adds keeps the lock discipline from a free lock to a free
  lock, on every path: each read and each write of
  \<^verbatim>\<open>Model._local_model_to_id_uri\<close> comes after an \<^verbatim>\<open>acquire\<close> and before the next
  \<^verbatim>\<open>release\<close>, each \<^verbatim>\<open>acquire\<close> is followed by one \<^verbatim>\<open>release\<close>, the two are equal in
  number, and the lock is not held after a call that acquired it.
\<close>

theorem cache_accessed_under_lock:
  "events (snd (restore_weights_file cls env model filepath frmwork tsk w))
      = events w @ emitted w (snd (restore_weights_file cls env model filepath frmwork tsk w))
   \<and> lock_discipline False (emitted w (snd (restore_weights_file cls env model filepath frmwork tsk w)))
      = Some False
   \<and> lock_held (snd (restore_weights_file cls env model filepath frmwork tsk w))
      = (if Acquire \<in> set (emitted w (snd (restore_weights_file cls env model filepath frmwork tsk w)))
         then False else lock_held w)
   \<and> count_list (emitted w (snd (restore_weights_file cls env model filepath frmwork tsk w))) Acquire
      = count_list (emitted w (snd (restore_weights_file cls env model filepath frmwork tsk w))) Release
   \<and> events (snd (create_output_model cls env model saved_path frmwork tsk singlefile model_name config w))
      = events w @ emitted w
          (snd (create_output_model cls env model saved_path frmwork tsk singlefile model_name config w))
   \<and> lock_discipline False (emitted w
          (snd (create_output_model cls env model saved_path frmwork tsk singlefile model_name config w)))
      = Some False
   \<and> lock_held (snd (create_output_model cls env model saved_path frmwork tsk singlefile model_name config w))
      = (if Acquire \<in> set (emitted w
               (snd (create_output_model cls env model saved_path frmwork tsk singlefile model_name config w)))
         then False else lock_held w)
   \<and> count_list (emitted w
          (snd (create_output_model cls env model saved_path frmwork tsk singlefile model_name config w)))
        Acquire
      = count_list (emitted w
          (snd (create_output_model cls env model saved_path frmwork tsk singlefile model_name config w)))
        Release"
  using call_discipline [OF restore_state_shape, of cls env model filepath frmwork tsk w]
    call_discipline [OF create_state_shape, of cls env model saved_path frmwork tsk singlefile model_name config w]
  by (simp only: simp_thms)














end
